theory Spec2Isabelle
  imports Main
begin

section \<open>JavaScript runtime primitives used by tvconvert\<close>

text \<open>
  Strings are lists of characters; a character stands for one code unit below 256.
  Integral numbers (stream indices, years, file counters) are modelled as \<open>int\<close>;
  the text a template literal produces for them is their decimal notation.
\<close>

definition digit_char :: "nat \<Rightarrow> char" where
  "digit_char d = ''0123456789'' ! d"

fun show_nat :: "nat \<Rightarrow> string" where
  "show_nat n = (if n < 10 then [digit_char n] else show_nat (n div 10) @ [digit_char (n mod 10)])"

declare show_nat.simps [simp del]

definition show_int :: "int \<Rightarrow> string" where
  "show_int i = (if i < 0 then CHR ''-'' # show_nat (nat (- i)) else show_nat (nat i))"

text \<open>\<open>Array.prototype.join\<close> on an array of strings.\<close>

fun join_str :: "string \<Rightarrow> string list \<Rightarrow> string" where
  "join_str sep [] = []"
| "join_str sep [x] = x"
| "join_str sep (x # y # ys) = x @ sep @ join_str sep (y # ys)"

section \<open>ffprobe.ts\<close>

text \<open>
  A disposition map is a JavaScript object: its keys in the order \<open>Object.keys\<close>
  lists them, each with its value; the lookup \<open>m[k]\<close> is \<open>map_of\<close>.
\<close>

type_synonym FfprobeDispositionMap = "(string \<times> int) list"

record FfprobeStream =
  codec_type :: string
  index :: int
  codec_name :: string
  disposition :: FfprobeDispositionMap
  tags :: "(string \<times> string) list option"
  channel_layout :: string

record 'n FfprobeFormat =
  duration :: 'n

record 'n FfProbeOutput =
  format :: "'n FfprobeFormat"
  streams :: "FfprobeStream list"

definition convertFfprobeDispositionMapToDispositionListWithoutDefault ::
    "FfprobeDispositionMap \<Rightarrow> string list" where
  "convertFfprobeDispositionMapToDispositionListWithoutDefault ffprobeDispositionMap =
     filter (\<lambda>disposition. disposition \<noteq> ''default'' \<and>
                map_of ffprobeDispositionMap disposition = Some 1)
       (map fst ffprobeDispositionMap)"

section \<open>movie.ts: the data model\<close>

record Stream =
  index :: int
  codecName :: string
  language :: "string option"
  title :: "string option"
  dispositionsWithoutDefault :: "string list"

record AudioStream = Stream +
  channelLayout :: string

type_synonym SubtitleStream = Stream

record 'n ContainerInfo =
  containerDurationSeconds :: 'n
  audioStreams :: "AudioStream list"
  subtitleStreams :: "SubtitleStream list"

record 'n ConversionInfo =
  containerDurationSeconds :: 'n
  audioStreams :: "AudioStream list"
  selectedAudioStream :: AudioStream
  subtitleStreams :: "SubtitleStream list"
  selectedSubtitleStream :: "SubtitleStream option"

record ConversionResult =
  successful :: bool
  stderr :: string

record IMovie =
  title :: string
  year :: int
  inputFilePath :: string

record 'n Movie = IMovie +
  conversionInfo :: "'n ConversionInfo option"
  conversionResult :: "ConversionResult option"

datatype error = Error string | TypeError string

definition fromIMovie :: "'a IMovie_scheme \<Rightarrow> 'n Movie" where
  "fromIMovie movie =
     \<lparr>title = IMovie.title movie, year = year movie, inputFilePath = inputFilePath movie,
      conversionInfo = None, conversionResult = None\<rparr>"

subsection \<open>Names and paths\<close>

text \<open>The character class \<open>[a-zA-Z0-9-_ ]\<close>, by code unit.\<close>

definition fileNameSafeChar :: "char \<Rightarrow> bool" where
  "fileNameSafeChar c =
     (let u = (of_char c :: nat)
      in (97 \<le> u \<and> u \<le> 122) \<or> (65 \<le> u \<and> u \<le> 90) \<or> (48 \<le> u \<and> u \<le> 57)
         \<or> c = CHR ''-'' \<or> c = CHR ''_'' \<or> c = CHR '' '')"

definition getFullyQualifiedName :: "'a IMovie_scheme \<Rightarrow> bool \<Rightarrow> string" where
  "getFullyQualifiedName this fileNameSafe =
     (let title = IMovie.title this;
          title = (if fileNameSafe then filter fileNameSafeChar title else title)
      in title @ '' ('' @ show_int (year this) @ '')'')"

text \<open>
  \<open>path.join\<close> belongs to the platform (separator and normalisation differ between
  POSIX and Windows); it is the parameter \<open>join\<close> of every function that builds a path.
\<close>

definition getOutputSubfolderPath ::
    "(string list \<Rightarrow> string) \<Rightarrow> 'a IMovie_scheme \<Rightarrow> string \<Rightarrow> SubtitleStream option \<Rightarrow> string" where
  "getOutputSubfolderPath join this outputFolderPath selectedSubtitleStream' =
     (let outputSubfolderName =
            (if selectedSubtitleStream' = None then ''external_subtitle_needed'' else ''ready'')
      in join [outputFolderPath, outputSubfolderName, getFullyQualifiedName this True])"

definition getMkvOutputFilePath ::
    "(string list \<Rightarrow> string) \<Rightarrow> 'a IMovie_scheme \<Rightarrow> string \<Rightarrow> SubtitleStream option \<Rightarrow> string" where
  "getMkvOutputFilePath join this outputFolderPath selectedSubtitleStream' =
     (let outputSubfolderPath = getOutputSubfolderPath join this outputFolderPath selectedSubtitleStream';
          outputFileName = getFullyQualifiedName this True @ ''.mkv''
      in join [outputSubfolderPath, outputFileName])"

definition getSrtOutputFilePath ::
    "(string list \<Rightarrow> string) \<Rightarrow> 'a IMovie_scheme \<Rightarrow> string \<Rightarrow> SubtitleStream \<Rightarrow> string" where
  "getSrtOutputFilePath join this outputFolderPath selectedSubtitleStream' =
     (let outputSubfolderPath =
            getOutputSubfolderPath join this outputFolderPath (Some selectedSubtitleStream');
          outputFileName =
            join_str ''.''
              [getFullyQualifiedName this True,
               (case language selectedSubtitleStream' of None \<Rightarrow> ''???'' | Some l \<Rightarrow> l),
               ''srt'']
      in join [outputSubfolderPath, outputFileName])"

subsection \<open>Per-stream arguments\<close>

definition getStreamTitle ::
    "string option \<Rightarrow> string \<Rightarrow> string option \<Rightarrow> string option \<Rightarrow> string" where
  "getStreamTitle language' codecName' originalTitle channelLayout' =
     (let lang = (case language' of None \<Rightarrow> ''???'' | Some l \<Rightarrow> l);
          ret = lang @ '' '' @ codecName';
          ret = (case channelLayout' of None \<Rightarrow> ret | Some c \<Rightarrow> ret @ '' '' @ c);
          ret = (case originalTitle of None \<Rightarrow> ret | Some t \<Rightarrow> ret @ '' ['' @ t @ '']'')
      in ret)"

definition getStreamMetadataArguments ::
    "string \<Rightarrow> string option \<Rightarrow> string \<Rightarrow> string option \<Rightarrow> string option \<Rightarrow> string list" where
  "getStreamMetadataArguments streamSpecifier language' codecName' originalTitle channelLayout' =
     (let ret = [''-metadata:s:'' @ streamSpecifier,
                 ''title='' @ getStreamTitle language' codecName' originalTitle channelLayout']
      in case language' of
           None \<Rightarrow> ret
         | Some l \<Rightarrow> ret @ [''-metadata:s:'' @ streamSpecifier, ''language='' @ l])"

definition getDisposition :: "string list \<Rightarrow> bool \<Rightarrow> string" where
  "getDisposition dispositionsWithoutDefault' isDefault =
     (let ret = dispositionsWithoutDefault';
          ret = (if isDefault then ''default'' # ret else ret)
      in join_str ''+'' ret)"

definition getStreamDispositionArguments :: "string \<Rightarrow> string list \<Rightarrow> bool \<Rightarrow> string list" where
  "getStreamDispositionArguments streamSpecifier dispositionsWithoutDefault' isDefault =
     (let disposition = getDisposition dispositionsWithoutDefault' isDefault
      in if disposition = [] then [] else [''-disposition:'' @ streamSpecifier, disposition])"

subsection \<open>The two output specifications\<close>

text \<open>
  The argument array grows by \<open>push\<close>: each loop is a fold whose accumulator is the
  array; \<open>forEach\<close> with its position is a fold over \<open>enumerate 0\<close>.
\<close>

definition getMkvOutputArguments ::
    "(string list \<Rightarrow> string) \<Rightarrow> 'a IMovie_scheme \<Rightarrow> string \<Rightarrow> 'n ConversionInfo \<Rightarrow> string list" where
  "getMkvOutputArguments join this outputFolderPath conversionInfo' =
     (let mkvOutputArguments =
            [''-codec'', ''copy'',
             ''-map_metadata'', ''-1'',
             ''-map_chapters'', ''-1'',
             ''-map'', ''0:V'',
             ''-map'', ''0:'' @ show_int (index (selectedAudioStream conversionInfo'))];
          mkvOutputArguments =
            foldl (\<lambda>args audioStream. args @ [''-map'', ''0:'' @ show_int (index audioStream)])
              mkvOutputArguments (audioStreams conversionInfo');
          mkvOutputArguments =
            foldl (\<lambda>args subtitleStream. args @ [''-map'', ''0:'' @ show_int (index subtitleStream)])
              mkvOutputArguments (subtitleStreams conversionInfo');
          mkvOutputArguments =
            mkvOutputArguments @
              [''-codec:a:0'', ''aac'', ''-b:a:0'', ''128k'', ''-ac:a:0'', ''2''] @
              getStreamMetadataArguments ''a:0''
                (language (selectedAudioStream conversionInfo')) ''aac'' None (Some ''stereo'') @
              getStreamDispositionArguments ''a:0''
                (dispositionsWithoutDefault (selectedAudioStream conversionInfo')) True;
          mkvOutputArguments =
            foldl (\<lambda>args (i, audioStream).
                args @
                  getStreamMetadataArguments (''a:'' @ show_nat (i + 1))
                    (language audioStream) (codecName audioStream) (Stream.title audioStream)
                    (Some (channelLayout audioStream)) @
                  getStreamDispositionArguments (''a:'' @ show_nat (i + 1))
                    (dispositionsWithoutDefault audioStream) False)
              mkvOutputArguments (enumerate 0 (audioStreams conversionInfo'));
          mkvOutputArguments =
            foldl (\<lambda>args (i, subtitleStream).
                args @
                  getStreamMetadataArguments (''s:'' @ show_nat i)
                    (language subtitleStream) (codecName subtitleStream)
                    (Stream.title subtitleStream) None @
                  getStreamDispositionArguments (''s:'' @ show_nat i)
                    (dispositionsWithoutDefault subtitleStream) False)
              mkvOutputArguments (enumerate 0 (subtitleStreams conversionInfo'))
      in mkvOutputArguments @
           [getMkvOutputFilePath join this outputFolderPath (selectedSubtitleStream conversionInfo')])"

definition getSrtOutputArguments ::
    "(string list \<Rightarrow> string) \<Rightarrow> 'a IMovie_scheme \<Rightarrow> string \<Rightarrow> 'n ConversionInfo \<Rightarrow> string list" where
  "getSrtOutputArguments join this outputFolderPath conversionInfo' =
     (case selectedSubtitleStream conversionInfo' of
        None \<Rightarrow> []
      | Some selected \<Rightarrow>
          [''-map'', ''0:'' @ show_int (index selected),
           getSrtOutputFilePath join this outputFolderPath selected])"

subsection \<open>Probing and selection\<close>

text \<open>
  \<open>getInputFileMediaInfo\<close> runs ffprobe and parses its output; the model starts from the
  parsed \<open>FfProbeOutput\<close>. The optional chaining \<open>s.tags?.["language"]\<close> is undefined
  when there are no tags or no such tag.
\<close>

definition getInputFileMediaInfo :: "'n FfProbeOutput \<Rightarrow> 'n ContainerInfo" where
  "getInputFileMediaInfo ffprobeOutput =
     (let audioStreams' =
            map (\<lambda>s. \<lparr>Stream.index = FfprobeStream.index s,
                      Stream.codecName = codec_name s,
                      Stream.language = (case tags s of None \<Rightarrow> None | Some t \<Rightarrow> map_of t ''language''),
                      Stream.title = (case tags s of None \<Rightarrow> None | Some t \<Rightarrow> map_of t ''title''),
                      Stream.dispositionsWithoutDefault =
                        convertFfprobeDispositionMapToDispositionListWithoutDefault (disposition s),
                      AudioStream.channelLayout = channel_layout s\<rparr>)
              (filter (\<lambda>s. codec_type s = ''audio'') (streams ffprobeOutput));
          subtitleStreams' =
            map (\<lambda>s. \<lparr>Stream.index = FfprobeStream.index s,
                      Stream.codecName = codec_name s,
                      Stream.language = (case tags s of None \<Rightarrow> None | Some t \<Rightarrow> map_of t ''language''),
                      Stream.title = (case tags s of None \<Rightarrow> None | Some t \<Rightarrow> map_of t ''title''),
                      Stream.dispositionsWithoutDefault =
                        convertFfprobeDispositionMapToDispositionListWithoutDefault (disposition s)\<rparr>)
              (filter (\<lambda>s. codec_type s = ''subtitle'') (streams ffprobeOutput))
      in \<lparr>ContainerInfo.containerDurationSeconds = duration (format ffprobeOutput),
          ContainerInfo.audioStreams = audioStreams',
          ContainerInfo.subtitleStreams = subtitleStreams'\<rparr>)"

text \<open>
  \<open>Number.parseInt(string, 10)\<close>: leading white space is skipped, one sign is read, then
  the longest run of decimal digits; no digit gives NaN, which is \<open>None\<close> here (NaN equals
  no index). The value is exact, as the runtime's is below \<open>2 ^ 53\<close>.
\<close>

definition is_white_space :: "char \<Rightarrow> bool" where
  "is_white_space c = ((of_char c :: nat) \<in> {9, 10, 11, 12, 13, 32, 160})"

definition is_digit :: "char \<Rightarrow> bool" where
  "is_digit c = (48 \<le> (of_char c :: nat) \<and> (of_char c :: nat) \<le> 57)"

definition digit_val :: "char \<Rightarrow> nat" where
  "digit_val c = of_char c - 48"

definition parseInt10 :: "string \<Rightarrow> int option" where
  "parseInt10 string =
     (let S = dropWhile is_white_space string;
          sign = (if S \<noteq> [] \<and> hd S = CHR ''-'' then - 1 else 1 :: int);
          S = (if S \<noteq> [] \<and> (hd S = CHR ''+'' \<or> hd S = CHR ''-'') then tl S else S);
          Z = takeWhile is_digit S
      in if Z = [] then None
         else Some (sign * int (foldl (\<lambda>n c. 10 * n + digit_val c) 0 Z)))"

text \<open>
  The prompts read the operator's answers one after the other: the list of answers still
  to come is the input. A loop that runs out of answers waits for ever: \<open>None\<close>. A
  returning loop gives its result and the answers it has not read.
\<close>

fun selectAudioStream :: "AudioStream list \<Rightarrow> string list \<Rightarrow> (AudioStream \<times> string list) option" where
  "selectAudioStream audioStreams' [] = None"
| "selectAudioStream audioStreams' (audioStreamSelectionAnswer # answers) =
     (let audioStreamIndexCandidate = parseInt10 audioStreamSelectionAnswer;
          selectedAudioStream' =
            find (\<lambda>audioStream. Some (index audioStream) = audioStreamIndexCandidate) audioStreams'
      in case selectedAudioStream' of
           Some s \<Rightarrow> Some (s, answers)
         | None \<Rightarrow> selectAudioStream audioStreams' answers)"

fun selectSubtitleStream ::
    "SubtitleStream list \<Rightarrow> string list \<Rightarrow> (SubtitleStream option \<times> string list) option" where
  "selectSubtitleStream subtitleStreams' [] = None"
| "selectSubtitleStream subtitleStreams' (subtitleStreamSelectionAnswer # answers) =
     (if subtitleStreamSelectionAnswer = [] then Some (None, answers)
      else
        let subtitleStreamIndexCandidate = parseInt10 subtitleStreamSelectionAnswer;
            selectedSubtitleStream' =
              find (\<lambda>subtitleStream. Some (index subtitleStream) = subtitleStreamIndexCandidate)
                subtitleStreams'
        in case selectedSubtitleStream' of
             Some s \<Rightarrow> Some (Some s, answers)
           | None \<Rightarrow> selectSubtitleStream subtitleStreams' answers)"

definition collectConversionInfo ::
    "'n Movie \<Rightarrow> 'n FfProbeOutput \<Rightarrow> string list \<Rightarrow> ('n Movie \<times> string list) option" where
  "collectConversionInfo this ffprobeOutput answers =
     (let info = getInputFileMediaInfo ffprobeOutput
      in case selectAudioStream (ContainerInfo.audioStreams info) answers of
           None \<Rightarrow> None
         | Some (selectedAudioStream', answers) \<Rightarrow>
             (case selectSubtitleStream (ContainerInfo.subtitleStreams info) answers of
                None \<Rightarrow> None
              | Some (selectedSubtitleStream', answers) \<Rightarrow>
                  Some (this\<lparr>conversionInfo := Some
                          \<lparr>ConversionInfo.containerDurationSeconds =
                             ContainerInfo.containerDurationSeconds info,
                           ConversionInfo.audioStreams = ContainerInfo.audioStreams info,
                           ConversionInfo.selectedAudioStream = selectedAudioStream',
                           ConversionInfo.subtitleStreams = ContainerInfo.subtitleStreams info,
                           ConversionInfo.selectedSubtitleStream = selectedSubtitleStream'\<rparr>\<rparr>,
                        answers)))"

subsection \<open>Invocation and the progress monitor\<close>

text \<open>
  The patterns \<open>/out_time_us=(.+)\n/\<close> and \<open>/speed=(.+)\n/\<close> are a literal key, a
  greedy non-empty run of characters that are no line terminators, and a line feed. Of
  the line terminators the dot leaves out, the line feed and the carriage return are code
  units below 256.
  \<open>regexMatchAt\<close> tries the pattern at the start of the text: the run is the longest
  one, since every shorter one is followed by a character that is no line feed.
  \<open>regexMatch\<close> is the leftmost match; it gives capture group 1, and \<open>None\<close> for the
  null that \<open>String.prototype.match\<close> returns when nothing matches.
\<close>

definition isLineTerminator :: "char \<Rightarrow> bool" where
  "isLineTerminator c = (c = CHR 0x0A \<or> c = CHR 0x0D)"

definition regexMatchAt :: "string \<Rightarrow> string \<Rightarrow> string option" where
  "regexMatchAt key s =
     (if take (length key) s = key then
        (let rest = drop (length key) s;
             v = takeWhile (\<lambda>c. \<not> isLineTerminator c) rest;
             after = dropWhile (\<lambda>c. \<not> isLineTerminator c) rest
         in if v \<noteq> [] \<and> after \<noteq> [] \<and> hd after = CHR 0x0A then Some v else None)
      else None)"

fun regexMatch :: "string \<Rightarrow> string \<Rightarrow> string option" where
  "regexMatch key [] = regexMatchAt key []"
| "regexMatch key (c # s) =
     (case regexMatchAt key (c # s) of Some v \<Rightarrow> Some v | None \<Rightarrow> regexMatch key s)"

text \<open>
  Progress is computed in IEEE double arithmetic, which belongs to the runtime: the
  conversion of a string operand to a number, the number a literal denotes, division,
  multiplication and \<open>Number.prototype.toFixed\<close> are the fields of the parameter \<open>N\<close>,
  over any type \<open>'n\<close> of numbers.
\<close>

record 'n NumberOps =
  numOfString :: "string \<Rightarrow> 'n"
  numOfInt :: "int \<Rightarrow> 'n"
  numDivide :: "'n \<Rightarrow> 'n \<Rightarrow> 'n"
  numTimes :: "'n \<Rightarrow> 'n \<Rightarrow> 'n"
  numToFixed :: "'n \<Rightarrow> nat \<Rightarrow> string"

definition getRoundedProgressPercentage :: "'n NumberOps \<Rightarrow> 'n \<Rightarrow> string" where
  "getRoundedProgressPercentage N normalizedProgress =
     numToFixed N (numTimes N normalizedProgress (numOfInt N 100)) 2"

text \<open>\<open>logProgress\<close> writes one line to the console; the model gives the line.\<close>

definition logProgress :: "'a IMovie_scheme \<Rightarrow> int \<Rightarrow> int \<Rightarrow> string \<Rightarrow> string \<Rightarrow> string" where
  "logProgress this currentFileIndex allFilesCount progressPercentageRounded speed =
     ''['' @ show_int currentFileIndex @ '' / '' @ show_int allFilesCount @ ''] '' @
     getFullyQualifiedName this False @
     '' ['' @ progressPercentageRounded @ ''% at '' @ speed @ '']''"

text \<open>
  What \<open>convert\<close> leaves behind when it has spawned ffmpeg: the command line, the folder
  it made, and the variables its event handlers share, with the console lines written.
  The file index and the file count of its signature only reach the progress handler, and
  are parameters of that.
\<close>

record FfmpegProcess =
  ffmpegBinary :: string
  ffmpegArguments :: "string list"
  madeDirectory :: string
  roundedProgressPercentage :: string
  stderrText :: string
  consoleLines :: "string list"

definition convert ::
    "'n NumberOps \<Rightarrow> (string list \<Rightarrow> string) \<Rightarrow> 'n Movie \<Rightarrow> string \<Rightarrow> string \<Rightarrow> error + FfmpegProcess" where
  "convert N join this outputFolderPath ffmpegBinaryPath =
     (case conversionInfo this of
        None \<Rightarrow> Inl (Error ''AssertError: must call collectConversionInfo() before convert()'')
      | Some info \<Rightarrow>
          (let globalArguments =
                 [''-hide_banner'', ''-loglevel'', ''warning'', ''-nostats'', ''-progress'',
                  ''pipe:1'', ''-y''];
               inputFileArguments = [''-i'', inputFilePath this];
               outputsArguments =
                 [getMkvOutputArguments join this outputFolderPath info,
                  getSrtOutputArguments join this outputFolderPath info];
               ffmpegArguments' = globalArguments @ inputFileArguments @ concat outputsArguments
           in Inr \<lparr>ffmpegBinary = ffmpegBinaryPath,
                   ffmpegArguments = ffmpegArguments',
                   madeDirectory =
                     getOutputSubfolderPath join this outputFolderPath (selectedSubtitleStream info),
                   roundedProgressPercentage = getRoundedProgressPercentage N (numOfInt N 0),
                   stderrText = [],
                   consoleLines = []\<rparr>))"

text \<open>
  The handler of a chunk of ffmpeg's standard output. Indexing the null of a pattern that
  does not match throws a TypeError.
\<close>

definition onStdoutData ::
    "'n NumberOps \<Rightarrow> 'a IMovie_scheme \<Rightarrow> 'n \<Rightarrow> int \<Rightarrow> int \<Rightarrow> FfmpegProcess \<Rightarrow> string
       \<Rightarrow> error + FfmpegProcess" where
  "onStdoutData N this containerDurationSeconds' currentFileIndex allFilesCount proc data =
     (case regexMatch ''out_time_us='' data of
        None \<Rightarrow> Inl (TypeError ''Cannot read properties of null'')
      | Some outTimeMicroseconds \<Rightarrow>
          (case regexMatch ''speed='' data of
             None \<Rightarrow> Inl (TypeError ''Cannot read properties of null'')
           | Some speed \<Rightarrow>
               if outTimeMicroseconds = ''N/A'' \<or> speed = ''N/A'' then Inr proc
               else
                 (let outTimeSeconds =
                        numDivide N (numOfString N outTimeMicroseconds) (numOfInt N 1000000);
                      progress = numDivide N outTimeSeconds containerDurationSeconds';
                      newRoundedProgressPercentage = getRoundedProgressPercentage N progress
                  in if newRoundedProgressPercentage \<noteq> roundedProgressPercentage proc then
                       Inr (proc\<lparr>roundedProgressPercentage := newRoundedProgressPercentage,
                                 consoleLines := consoleLines proc @
                                   [logProgress this currentFileIndex allFilesCount
                                      newRoundedProgressPercentage speed]\<rparr>)
                     else Inr proc)))"

text \<open>
  The events of the spawned process, in the order they arrive: chunks of standard output,
  chunks of standard error, and the close with the exit code (none when a signal ended the
  process). The handlers are closures of \<open>convert\<close>: the container duration, the file
  index and the file count they captured are parameters here. An exception in a handler
  ends the run.
\<close>

datatype event = StdoutData string | StderrData string | Close "int option"

definition handleEvent ::
    "'n NumberOps \<Rightarrow> 'n \<Rightarrow> int \<Rightarrow> int \<Rightarrow> 'n Movie \<times> FfmpegProcess \<Rightarrow> event
       \<Rightarrow> error + 'n Movie \<times> FfmpegProcess" where
  "handleEvent N containerDurationSeconds' currentFileIndex allFilesCount state ev =
     (let this = fst state; proc = snd state
      in case ev of
           StdoutData data \<Rightarrow>
             (case onStdoutData N this containerDurationSeconds' currentFileIndex
                     allFilesCount proc data of
                Inl e \<Rightarrow> Inl e
              | Inr proc' \<Rightarrow> Inr (this, proc'))
         | StderrData data \<Rightarrow> Inr (this, proc\<lparr>stderrText := stderrText proc @ data\<rparr>)
         | Close exitCode \<Rightarrow>
             Inr (this\<lparr>conversionResult :=
                    Some \<lparr>successful = (exitCode = Some 0), stderr = stderrText proc\<rparr>\<rparr>, proc))"

fun runEvents ::
    "'n NumberOps \<Rightarrow> 'n \<Rightarrow> int \<Rightarrow> int \<Rightarrow> 'n Movie \<times> FfmpegProcess \<Rightarrow> event list
       \<Rightarrow> error + 'n Movie \<times> FfmpegProcess" where
  "runEvents N containerDurationSeconds' currentFileIndex allFilesCount state [] = Inr state"
| "runEvents N containerDurationSeconds' currentFileIndex allFilesCount state (ev # evs) =
     (case handleEvent N containerDurationSeconds' currentFileIndex allFilesCount state ev of
        Inl e \<Rightarrow> Inl e
      | Inr state' \<Rightarrow>
          runEvents N containerDurationSeconds' currentFileIndex allFilesCount state' evs)"

definition getConversionResult :: "'n Movie \<Rightarrow> error + ConversionResult" where
  "getConversionResult this =
     (case conversionResult this of
        None \<Rightarrow> Inl (Error ''AssertError: conversion did not finish yet'')
      | Some r \<Rightarrow> Inr r)"

section \<open>The progress lines as the specification words them\<close>

text \<open>
  For the comparison with the handler: of the chunks, each given by its \<open>out_time_us\<close>
  value and its \<open>speed\<close> value, a chunk with "N/A" for either gives no line, and any
  other chunk gives a line, with its rounded percentage and its speed, exactly when that
  percentage differs from the one logged last (\<open>logged\<close>, at first the initial one).
\<close>

fun specProgressLines ::
    "(string \<Rightarrow> string) \<Rightarrow> string \<Rightarrow> (string \<times> string) list \<Rightarrow> (string \<times> string) list" where
  "specProgressLines percentage logged [] = []"
| "specProgressLines percentage logged ((outTime, speed) # chunks) =
     (if outTime = ''N/A'' \<or> speed = ''N/A'' then specProgressLines percentage logged chunks
      else if percentage outTime \<noteq> logged then
        (percentage outTime, speed) # specProgressLines percentage (percentage outTime) chunks
      else specProgressLines percentage logged chunks)"

section \<open>Example data\<close>

text \<open>
  An instance of the numbers for the examples: decimal fixed point, a number being the
  integer count of its \<open>10\<^sup>-\<^sup>8\<close> parts. Division and multiplication truncate to eight
  places, \<open>toFixed\<close> rounds half away from zero, and a string that is no number reads
  as zero. The container of the examples lasts 8160 seconds.
\<close>

fun fixedDigits :: "nat \<Rightarrow> nat \<Rightarrow> string" where
  "fixedDigits 0 k = []"
| "fixedDigits (Suc d) k = fixedDigits d (k div 10) @ [digit_char (k mod 10)]"

definition fixedPointToFixed :: "int \<Rightarrow> nat \<Rightarrow> string" where
  "fixedPointToFixed x d =
     (let k = nat ((\<bar>x\<bar> * 10 ^ d + 50000000) div 100000000)
      in (if x < 0 then ''-'' else []) @ show_nat (k div 10 ^ d) @
         (if d = 0 then [] else ''.'' @ fixedDigits d (k mod 10 ^ d)))"

definition fixedPointNumbers :: "int NumberOps" where
  "fixedPointNumbers =
     \<lparr>numOfString = (\<lambda>s. case parseInt10 s of None \<Rightarrow> 0 | Some i \<Rightarrow> i * 100000000),
      numOfInt = (\<lambda>i. i * 100000000),
      numDivide = (\<lambda>a b. (a * 100000000) div b),
      numTimes = (\<lambda>a b. (a * b) div 100000000),
      numToFixed = fixedPointToFixed\<rparr>"

text \<open>
  The movie of \<open>EXAMPLE_CONFIG\<close> (exampleConfig.ts), and the probe of the specification's
  scenario for it: a video stream, one audio stream (index 1, "eng", AAC, "5.1", no
  title) and one subtitle stream (index 2, "eng", "subrip"), with the plan that selecting
  both gives.
\<close>

definition EXAMPLE_CONFIG_movie :: IMovie where
  "EXAMPLE_CONFIG_movie =
     \<lparr>IMovie.title = ''The Matrix'', year = 1999,
      inputFilePath = ''./downloaded/The Matrix (1999)/The Matrix (1999).mkv''\<rparr>"

definition scenarioProbe :: "int FfProbeOutput" where
  "scenarioProbe =
     \<lparr>format = \<lparr>duration = 816000000000\<rparr>,
      streams =
        [\<lparr>codec_type = ''video'', FfprobeStream.index = 0, codec_name = ''h264'',
          disposition = [(''default'', 1), (''forced'', 0)], tags = None, channel_layout = []\<rparr>,
         \<lparr>codec_type = ''audio'', FfprobeStream.index = 1, codec_name = ''aac'',
          disposition = [(''default'', 1), (''forced'', 0)],
          tags = Some [(''language'', ''eng'')], channel_layout = ''5.1''\<rparr>,
         \<lparr>codec_type = ''subtitle'', FfprobeStream.index = 2, codec_name = ''subrip'',
          disposition = [(''default'', 0), (''forced'', 0)],
          tags = Some [(''language'', ''eng'')], channel_layout = []\<rparr>]\<rparr>"

definition scenarioAudio :: AudioStream where
  "scenarioAudio =
     \<lparr>Stream.index = 1, codecName = ''aac'', language = Some ''eng'', Stream.title = None,
      dispositionsWithoutDefault = [], channelLayout = ''5.1''\<rparr>"

definition scenarioSubtitle :: SubtitleStream where
  "scenarioSubtitle =
     \<lparr>Stream.index = 2, codecName = ''subrip'', language = Some ''eng'', Stream.title = None,
      dispositionsWithoutDefault = []\<rparr>"

definition scenarioPlan :: "int ConversionInfo" where
  "scenarioPlan =
     \<lparr>containerDurationSeconds = 816000000000, audioStreams = [scenarioAudio],
      selectedAudioStream = scenarioAudio, subtitleStreams = [scenarioSubtitle],
      selectedSubtitleStream = Some scenarioSubtitle\<rparr>"

text \<open>The scenario's plan when the audio stream carries a title of its own.\<close>

definition titledAudio :: AudioStream where
  "titledAudio = scenarioAudio\<lparr>Stream.title := Some ''Surround''\<rparr>"

definition titledPlan :: "int ConversionInfo" where
  "titledPlan = scenarioPlan\<lparr>audioStreams := [titledAudio], selectedAudioStream := titledAudio\<rparr>"

text \<open>
  A probe with a main audio stream flagged default, a commentary stream flagged comment and
  a subtitle stream flagged default and forced, and the plan of selecting the commentary
  and the subtitle.
\<close>

definition commentaryProbe :: "int FfProbeOutput" where
  "commentaryProbe =
     \<lparr>format = \<lparr>duration = 816000000000\<rparr>,
      streams =
        [\<lparr>codec_type = ''video'', FfprobeStream.index = 0, codec_name = ''h264'',
          disposition = [(''default'', 1), (''comment'', 0), (''forced'', 0)], tags = None,
          channel_layout = []\<rparr>,
         \<lparr>codec_type = ''audio'', FfprobeStream.index = 1, codec_name = ''dts'',
          disposition = [(''default'', 1), (''comment'', 0), (''forced'', 0)],
          tags = Some [(''language'', ''eng'')], channel_layout = ''5.1''\<rparr>,
         \<lparr>codec_type = ''audio'', FfprobeStream.index = 2, codec_name = ''ac3'',
          disposition = [(''default'', 0), (''comment'', 1), (''forced'', 0)],
          tags = Some [(''title'', ''Commentary'')], channel_layout = ''stereo''\<rparr>,
         \<lparr>codec_type = ''subtitle'', FfprobeStream.index = 3, codec_name = ''subrip'',
          disposition = [(''default'', 1), (''comment'', 0), (''forced'', 1)],
          tags = None, channel_layout = []\<rparr>]\<rparr>"

definition commentaryMain :: AudioStream where
  "commentaryMain =
     \<lparr>Stream.index = 1, codecName = ''dts'', language = Some ''eng'', Stream.title = None,
      dispositionsWithoutDefault = [], channelLayout = ''5.1''\<rparr>"

definition commentaryTrack :: AudioStream where
  "commentaryTrack =
     \<lparr>Stream.index = 2, codecName = ''ac3'', language = None, Stream.title = Some ''Commentary'',
      dispositionsWithoutDefault = [''comment''], channelLayout = ''stereo''\<rparr>"

definition commentarySubtitle :: SubtitleStream where
  "commentarySubtitle =
     \<lparr>Stream.index = 3, codecName = ''subrip'', language = None, Stream.title = None,
      dispositionsWithoutDefault = [''forced'']\<rparr>"

definition commentaryPlan :: "int ConversionInfo" where
  "commentaryPlan =
     \<lparr>containerDurationSeconds = 816000000000, audioStreams = [commentaryMain, commentaryTrack],
      selectedAudioStream = commentaryTrack, subtitleStreams = [commentarySubtitle],
      selectedSubtitleStream = Some commentarySubtitle\<rparr>"
text \<open>
  The scenario's movie once planned, and what \<open>convert\<close> leaves for it with the output
  folder "./converted" and plain joining of path segments with "/".
\<close>

definition scenarioMovie :: "int Movie" where
  "scenarioMovie = (fromIMovie EXAMPLE_CONFIG_movie)\<lparr>conversionInfo := Some scenarioPlan\<rparr>"

definition scenarioProcess :: FfmpegProcess where
  "scenarioProcess =
     \<lparr>ffmpegBinary = ''/usr/local/bin/ffmpeg'',
      ffmpegArguments =
        [''-hide_banner'', ''-loglevel'', ''warning'', ''-nostats'', ''-progress'', ''pipe:1'', ''-y'',
         ''-i'', ''./downloaded/The Matrix (1999)/The Matrix (1999).mkv'',
         ''-codec'', ''copy'', ''-map_metadata'', ''-1'', ''-map_chapters'', ''-1'',
         ''-map'', ''0:V'', ''-map'', ''0:1'', ''-map'', ''0:1'', ''-map'', ''0:2'',
         ''-codec:a:0'', ''aac'', ''-b:a:0'', ''128k'', ''-ac:a:0'', ''2'',
         ''-metadata:s:a:0'', ''title=eng aac stereo'', ''-metadata:s:a:0'', ''language=eng'',
         ''-disposition:a:0'', ''default'',
         ''-metadata:s:a:1'', ''title=eng aac 5.1'', ''-metadata:s:a:1'', ''language=eng'',
         ''-metadata:s:s:0'', ''title=eng subrip'', ''-metadata:s:s:0'', ''language=eng'',
         ''./converted/ready/The Matrix (1999)/The Matrix (1999).mkv'',
         ''-map'', ''0:2'', ''./converted/ready/The Matrix (1999)/The Matrix (1999).eng.srt''],
      madeDirectory = ''./converted/ready/The Matrix (1999)'',
      roundedProgressPercentage = ''0.00'',
      stderrText = [],
      consoleLines = []\<rparr>"

section \<open>The stream catalog\<close>

text \<open>
  C5:the disposition list derived from an ffprobe disposition map holds exactly the keys
  of the map whose value is 1, the key "default" left out, whatever its value.
\<close>

theorem disposition_list_without_default:
  "set (convertFfprobeDispositionMapToDispositionListWithoutDefault m) =
     {k. k \<in> fst ` set m \<and> map_of m k = Some 1 \<and> k \<noteq> ''default''}
   \<and> ''default'' \<notin> set (convertFfprobeDispositionMapToDispositionListWithoutDefault m)"
  by (auto simp: convertFfprobeDispositionMapToDispositionListWithoutDefault_def)

section \<open>Decimal notation\<close>

lemma below_ten:
  "(d::nat) < 10 \<Longrightarrow>
     d = 0 \<or> d = 1 \<or> d = 2 \<or> d = 3 \<or> d = 4 \<or> d = 5 \<or> d = 6 \<or> d = 7 \<or> d = 8 \<or> d = 9"
  by arith

lemma of_char_digit_char: "d < 10 \<Longrightarrow> (of_char (digit_char d) :: nat) = 48 + d"
  by (drule below_ten) (elim disjE; simp add: digit_char_def)

lemma is_digit_digit_char: "d < 10 \<Longrightarrow> is_digit (digit_char d)"
  by (simp add: is_digit_def of_char_digit_char)

lemma digit_val_digit_char: "d < 10 \<Longrightarrow> digit_val (digit_char d) = d"
  by (simp add: digit_val_def of_char_digit_char)

lemma show_nat_digits: "c \<in> set (show_nat n) \<Longrightarrow> is_digit c"
proof (induction n rule: show_nat.induct)
  case (1 n)
  show ?case
  proof (cases "n < 10")
    case True
    then have "show_nat n = [digit_char n]" by (subst show_nat.simps) simp
    with 1(2) True show ?thesis by (simp add: is_digit_digit_char)
  next
    case False
    then have eq: "show_nat n = show_nat (n div 10) @ [digit_char (n mod 10)]"
      by (subst show_nat.simps) simp
    have "is_digit (digit_char (n mod 10))" by (rule is_digit_digit_char) simp
    with 1 False eq show ?thesis by auto
  qed
qed

lemma show_nat_nonempty: "show_nat n \<noteq> []"
  by (subst show_nat.simps) simp

lemma is_digit_safe: "is_digit c \<Longrightarrow> fileNameSafeChar c"
  by (simp add: is_digit_def fileNameSafeChar_def)

lemma show_int_safe: "c \<in> set (show_int i) \<Longrightarrow> fileNameSafeChar c"
proof (cases "i < 0")
  case True
  assume "c \<in> set (show_int i)"
  with True have "c = CHR ''-'' \<or> c \<in> set (show_nat (nat (- i)))" by (simp add: show_int_def)
  then show ?thesis
  proof
    assume "c = CHR ''-''" then show ?thesis by (simp add: fileNameSafeChar_def)
  next
    assume "c \<in> set (show_nat (nat (- i)))"
    then show ?thesis by (intro is_digit_safe show_nat_digits)
  qed
next
  case False
  assume "c \<in> set (show_int i)"
  with False have "c \<in> set (show_nat (nat i))" by (simp add: show_int_def)
  then show ?thesis by (intro is_digit_safe show_nat_digits)
qed

section \<open>The fully qualified name\<close>

text \<open>
  C4, as the code has it: with \<open>fileNameSafe\<close> the name is the title without its
  characters outside \<open>[a-zA-Z0-9-_ ]\<close>, then a space, the year in parentheses; so the title
  part has no character outside the class, and the whole name has none but the two
  parentheses. Without \<open>fileNameSafe\<close> the title is kept as it is, followed by the same
  suffix.
\<close>

theorem fully_qualified_name_shape:
  "getFullyQualifiedName this True =
     filter fileNameSafeChar (IMovie.title this) @ '' ('' @ show_int (year this) @ '')''
   \<and> getFullyQualifiedName this False = IMovie.title this @ '' ('' @ show_int (year this) @ '')''
   \<and> set (filter fileNameSafeChar (IMovie.title this)) \<subseteq> Collect fileNameSafeChar
   \<and> set (getFullyQualifiedName this True) \<subseteq> Collect fileNameSafeChar \<union> {CHR ''('', CHR '')''}"
proof (intro conjI)
  show t: "getFullyQualifiedName this True =
     filter fileNameSafeChar (IMovie.title this) @ '' ('' @ show_int (year this) @ '')''"
    by (simp add: getFullyQualifiedName_def)
  show "getFullyQualifiedName this False = IMovie.title this @ '' ('' @ show_int (year this) @ '')''"
    by (simp add: getFullyQualifiedName_def)
  show "set (filter fileNameSafeChar (IMovie.title this)) \<subseteq> Collect fileNameSafeChar"
    by auto
  have sp: "fileNameSafeChar (CHR '' '')" by (simp add: fileNameSafeChar_def)
  show "set (getFullyQualifiedName this True) \<subseteq> Collect fileNameSafeChar \<union> {CHR ''('', CHR '')''}"
    unfolding t using sp show_int_safe [of _ "year this"] by auto
qed

text \<open>
  C4 as it is written fails: the file-name-safe name of "The Matrix" (1999) holds an
  opening parenthesis, a character outside the class.
\<close>

theorem fully_qualified_name_keeps_parentheses:
  "CHR ''('' \<in> set (getFullyQualifiedName
      \<lparr>IMovie.title = ''The Matrix'', year = 1999, inputFilePath = ''./The Matrix (1999).mkv''\<rparr> True)
   \<and> \<not> fileNameSafeChar (CHR ''('')"
  by (simp add: getFullyQualifiedName_def fileNameSafeChar_def)

section \<open>The destination layout\<close>

lemma getMkvOutputArguments_last:
  "last (getMkvOutputArguments join this outputFolderPath info) =
     getMkvOutputFilePath join this outputFolderPath (selectedSubtitleStream info)"
  by (simp only: getMkvOutputArguments_def Let_def last_snoc)

text \<open>
  C6: with no subtitle stream selected, the srt output has no argument and the mkv file, the
  last argument of the mkv output, is joined under "external_subtitle_needed"; with a
  stream selected, the mkv file is joined under "ready", and the srt output is one "-map"
  of the stream's index and one file, the name with the language (or "???") and "srt",
  joined to the same folder.
\<close>

theorem subtitle_selection_routes_outputs:
  "getSrtOutputArguments join this outputFolderPath info =
     (case selectedSubtitleStream info of
        None \<Rightarrow> []
      | Some s \<Rightarrow>
          [''-map'', ''0:'' @ show_int (index s),
           join [join [outputFolderPath, ''ready'', getFullyQualifiedName this True],
                 getFullyQualifiedName this True @ ''.'' @
                   (case language s of None \<Rightarrow> ''???'' | Some l \<Rightarrow> l) @ ''.srt'']])
   \<and> last (getMkvOutputArguments join this outputFolderPath info) =
       join [join [outputFolderPath,
                   (case selectedSubtitleStream info of
                      None \<Rightarrow> ''external_subtitle_needed'' | Some s \<Rightarrow> ''ready''),
                   getFullyQualifiedName this True],
             getFullyQualifiedName this True @ ''.mkv'']"
  by (simp add: getMkvOutputArguments_last getSrtOutputArguments_def getSrtOutputFilePath_def
      getMkvOutputFilePath_def getOutputSubfolderPath_def split: option.split)

section \<open>Reading a decimal number back\<close>

lemma decimal_value_snoc:
  "foldl (\<lambda>n c. 10 * n + digit_val c) 0 (ds @ [d]) =
     10 * foldl (\<lambda>n c. 10 * n + digit_val c) 0 ds + digit_val d"
  by simp

lemma decimal_value_show_nat: "foldl (\<lambda>n c. 10 * n + digit_val c) 0 (show_nat n) = n"
proof (induction n rule: show_nat.induct)
  case (1 n)
  show ?case
  proof (cases "n < 10")
    case True
    then have "show_nat n = [digit_char n]" by (subst show_nat.simps) simp
    with True show ?thesis by (simp add: digit_val_digit_char)
  next
    case False
    then have eq: "show_nat n = show_nat (n div 10) @ [digit_char (n mod 10)]"
      by (subst show_nat.simps) simp
    have "digit_val (digit_char (n mod 10)) = n mod 10" by (rule digit_val_digit_char) simp
    with 1 False show ?thesis unfolding eq decimal_value_snoc by simp
  qed
qed

lemma is_digit_not_special:
  "is_digit c \<Longrightarrow> \<not> is_white_space c \<and> c \<noteq> CHR ''-'' \<and> c \<noteq> CHR ''+''"
  by (auto simp: is_digit_def is_white_space_def)

lemma parseInt10_digits:
  assumes ds: "ds \<noteq> []" "\<And>c. c \<in> set ds \<Longrightarrow> is_digit c"
    and t: "t = [] \<or> \<not> is_digit (hd t)"
  shows "parseInt10 (ds @ t) = Some (int (foldl (\<lambda>n c. 10 * n + digit_val c) 0 ds))"
proof -
  have h: "hd (ds @ t) = hd ds" "ds @ t \<noteq> []" using ds(1) by simp_all
  have "is_digit (hd ds)" using ds by simp
  then have s: "\<not> is_white_space (hd ds)" "hd ds \<noteq> CHR ''-''" "hd ds \<noteq> CHR ''+''"
    using is_digit_not_special by blast+
  have w: "dropWhile is_white_space (ds @ t) = ds @ t"
    using s(1) h by (simp only: dropWhile_eq_self_iff) simp
  have "takeWhile is_digit (ds @ t) = ds @ takeWhile is_digit t"
    by (rule takeWhile_append2) (rule ds(2))
  moreover from t have "takeWhile is_digit t = []" by (simp add: takeWhile_eq_Nil_iff)
  ultimately have z: "takeWhile is_digit (ds @ t) = ds" by simp
  show ?thesis
    unfolding parseInt10_def w Let_def using s h ds(1) by (simp add: z)
qed

lemma parseInt10_show_nat:
  assumes "t = [] \<or> \<not> is_digit (hd t)"
  shows "parseInt10 (show_nat n @ t) = Some (int n)"
  using parseInt10_digits [where ds = "show_nat n", OF show_nat_nonempty show_nat_digits assms]
  by (simp add: decimal_value_show_nat)

lemma parseInt10_negative:
  assumes ds: "ds \<noteq> []" "\<And>c. c \<in> set ds \<Longrightarrow> is_digit c"
    and t: "t = [] \<or> \<not> is_digit (hd t)"
  shows "parseInt10 (CHR ''-'' # ds @ t) = Some (- int (foldl (\<lambda>n c. 10 * n + digit_val c) 0 ds))"
proof -
  have w: "dropWhile is_white_space (CHR ''-'' # ds @ t) = CHR ''-'' # ds @ t"
    by (simp add: is_white_space_def)
  have "takeWhile is_digit (ds @ t) = ds @ takeWhile is_digit t"
    by (rule takeWhile_append2) (rule ds(2))
  moreover from t have "takeWhile is_digit t = []" by (simp add: takeWhile_eq_Nil_iff)
  ultimately have z: "takeWhile is_digit (ds @ t) = ds" by simp
  show ?thesis
    unfolding parseInt10_def w Let_def using ds(1) by (simp add: z)
qed

lemma parseInt10_show_int:
  assumes "t = [] \<or> \<not> is_digit (hd t)"
  shows "parseInt10 (show_int i @ t) = Some i"
proof (cases "i < 0")
  case False
  then show ?thesis using parseInt10_show_nat [OF assms, of "nat i"] by (simp add: show_int_def)
next
  case True
  then show ?thesis
    using parseInt10_negative [where ds = "show_nat (nat (- i))", OF show_nat_nonempty show_nat_digits assms]
    by (simp add: show_int_def decimal_value_show_nat)
qed

lemma show_int_inj: "show_int i = show_int j \<Longrightarrow> i = j"
  using parseInt10_show_int [of "[]" i] parseInt10_show_int [of "[]" j] by simp

section \<open>The mkv output: stream mappings\<close>

lemma foldl_push: "foldl (\<lambda>args x. args @ f x) acc xs = acc @ concat (map f xs)"
  by (induction xs arbitrary: acc) simp_all

lemma foldl_push_indexed:
  "foldl (\<lambda>args (i, x). args @ f i x) acc ixs = acc @ concat (map (\<lambda>(i, x). f i x) ixs)"
  by (induction ixs arbitrary: acc) (simp_all add: case_prod_beta)

lemma getMkvOutputArguments_eq:
  "getMkvOutputArguments join this outputFolderPath info =
     [''-codec'', ''copy'', ''-map_metadata'', ''-1'', ''-map_chapters'', ''-1''] @
     concat (map (\<lambda>t. [''-map'', t])
       (''0:V'' # (''0:'' @ show_int (index (selectedAudioStream info))) #
        map (\<lambda>a. ''0:'' @ show_int (index a)) (audioStreams info) @
        map (\<lambda>s. ''0:'' @ show_int (index s)) (subtitleStreams info))) @
     [''-codec:a:0'', ''aac'', ''-b:a:0'', ''128k'', ''-ac:a:0'', ''2''] @
     getStreamMetadataArguments ''a:0'' (language (selectedAudioStream info)) ''aac'' None
       (Some ''stereo'') @
     getStreamDispositionArguments ''a:0''
       (dispositionsWithoutDefault (selectedAudioStream info)) True @
     concat (map (\<lambda>(i, a).
         getStreamMetadataArguments (''a:'' @ show_nat (i + 1)) (language a) (codecName a)
           (Stream.title a) (Some (channelLayout a)) @
         getStreamDispositionArguments (''a:'' @ show_nat (i + 1)) (dispositionsWithoutDefault a)
           False)
       (enumerate 0 (audioStreams info))) @
     concat (map (\<lambda>(i, s).
         getStreamMetadataArguments (''s:'' @ show_nat i) (language s) (codecName s)
           (Stream.title s) None @
         getStreamDispositionArguments (''s:'' @ show_nat i) (dispositionsWithoutDefault s) False)
       (enumerate 0 (subtitleStreams info))) @
     [getMkvOutputFilePath join this outputFolderPath (selectedSubtitleStream info)]"
  unfolding getMkvOutputArguments_def Let_def foldl_push foldl_push_indexed
  by (simp add: comp_def)


lemma selectAudioStream_member:
  "selectAudioStream ss answers = Some (s, rest) \<Longrightarrow> s \<in> set ss"
proof (induction answers)
  case Nil
  then show ?case by simp
next
  case (Cons a answers)
  then show ?case
    by (auto simp: Let_def find_Some_iff split: option.splits)
qed

lemma selectSubtitleStream_member:
  "selectSubtitleStream ss answers = Some (Some s, rest) \<Longrightarrow> s \<in> set ss"
proof (induction answers)
  case Nil
  then show ?case by simp
next
  case (Cons a answers)
  then show ?case
    by (auto simp: Let_def find_Some_iff split: option.splits if_splits)
qed

lemma collectConversionInfo_plan:
  assumes "collectConversionInfo this0 p answers = Some (this, rest)"
  shows "\<exists>info. conversionInfo this = Some info
    \<and> audioStreams info = ContainerInfo.audioStreams (getInputFileMediaInfo p)
    \<and> subtitleStreams info = ContainerInfo.subtitleStreams (getInputFileMediaInfo p)
    \<and> selectedAudioStream info \<in> set (audioStreams info)
    \<and> (\<forall>s. selectedSubtitleStream info = Some s \<longrightarrow> s \<in> set (subtitleStreams info))"
  using assms
  by (auto simp: collectConversionInfo_def Let_def split: option.splits prod.splits
      dest: selectAudioStream_member selectSubtitleStream_member)

lemma catalog_audio_indices:
  "map index (ContainerInfo.audioStreams (getInputFileMediaInfo p)) =
     map FfprobeStream.index (filter (\<lambda>s. codec_type s = ''audio'') (streams p))"
  by (simp add: getInputFileMediaInfo_def Let_def comp_def)

lemma catalog_subtitle_indices:
  "map index (ContainerInfo.subtitleStreams (getInputFileMediaInfo p)) =
     map FfprobeStream.index (filter (\<lambda>s. codec_type s = ''subtitle'') (streams p))"
  by (simp add: getInputFileMediaInfo_def Let_def comp_def)

lemma catalog_audio_no_default:
  "a \<in> set (ContainerInfo.audioStreams (getInputFileMediaInfo p)) \<Longrightarrow>
     ''default'' \<notin> set (dispositionsWithoutDefault a)"
  by (auto simp: getInputFileMediaInfo_def Let_def
      convertFfprobeDispositionMapToDispositionListWithoutDefault_def)

lemma catalog_subtitle_no_default:
  "s \<in> set (ContainerInfo.subtitleStreams (getInputFileMediaInfo p)) \<Longrightarrow>
     ''default'' \<notin> set (dispositionsWithoutDefault s)"
  by (auto simp: getInputFileMediaInfo_def Let_def
      convertFfprobeDispositionMapToDispositionListWithoutDefault_def)

lemma distinct_map_two_filters:
  "distinct (map f xs) \<Longrightarrow> (\<And>x. \<not> (P x \<and> Q x)) \<Longrightarrow>
     distinct (map f (filter P xs) @ map f (filter Q xs))"
  by (induction xs) auto

lemma count_list_distinct: "distinct xs \<Longrightarrow> x \<in> set xs \<Longrightarrow> count_list xs x = 1"
  by (induction xs) auto

lemma map_target_inj: "inj (\<lambda>i. ''0:'' @ show_int i)"
  by (rule injI) (simp add: show_int_inj)

lemma all_video_is_no_index: "''0:V'' \<noteq> ''0:'' @ show_int i"
proof
  assume "''0:V'' = ''0:'' @ show_int i"
  then have "show_int i = ''V''" by simp
  then have "parseInt10 ''V'' = Some i" using parseInt10_show_int [of "[]" i] by simp
  then show False by (simp add: parseInt10_def is_white_space_def is_digit_def)
qed

lemma scenario_collect:
  "collectConversionInfo (fromIMovie EXAMPLE_CONFIG_movie) scenarioProbe [''1'', ''2''] =
     Some ((fromIMovie EXAMPLE_CONFIG_movie)\<lparr>conversionInfo := Some scenarioPlan\<rparr>, [])"
  by (simp add: collectConversionInfo_def getInputFileMediaInfo_def scenarioProbe_def
      scenarioPlan_def scenarioAudio_def scenarioSubtitle_def Let_def parseInt10_def
      is_white_space_def is_digit_def digit_val_def
      convertFfprobeDispositionMapToDispositionListWithoutDefault_def)

text \<open>
  C1: for the plan that \<open>collectConversionInfo\<close> leaves in the movie, the mkv arguments
  are the six fixed ones, then the "-map" pairs of the list \<open>T\<close> in this order (all video
  streams "0:V", the selected audio stream's index, every cataloged audio stream's index,
  every cataloged subtitle stream's index), then the arguments of output audio stream 0.
  The selected audio stream's index stands at least twice in \<open>T\<close>, and exactly twice
  when the probe gives every stream its own index.
\<close>

theorem mkv_stream_mappings:
  assumes "collectConversionInfo this0 p answers = Some (this, rest)"
    and "conversionInfo this = Some info"
  shows
    "(let T = ''0:V'' # (''0:'' @ show_int (index (selectedAudioStream info))) #
              map (\<lambda>a. ''0:'' @ show_int (index a)) (audioStreams info) @
              map (\<lambda>s. ''0:'' @ show_int (index s)) (subtitleStreams info)
      in (\<exists>tail. getMkvOutputArguments join this' outputFolderPath info =
            [''-codec'', ''copy'', ''-map_metadata'', ''-1'', ''-map_chapters'', ''-1''] @
            concat (map (\<lambda>t. [''-map'', t]) T) @ ''-codec:a:0'' # tail)
         \<and> 2 \<le> count_list T (''0:'' @ show_int (index (selectedAudioStream info)))
         \<and> (distinct (map FfprobeStream.index (streams p)) \<longrightarrow>
              count_list T (''0:'' @ show_int (index (selectedAudioStream info))) = 2))"
proof -
  define f where "f = (\<lambda>i. ''0:'' @ show_int i)"
  let ?sel = "selectedAudioStream info"
  let ?A = "map index (audioStreams info)" and ?B = "map index (subtitleStreams info)"
  from collectConversionInfo_plan [OF assms(1)] assms(2)
  have au: "audioStreams info = ContainerInfo.audioStreams (getInputFileMediaInfo p)"
    and su: "subtitleStreams info = ContainerInfo.subtitleStreams (getInputFileMediaInfo p)"
    and mem: "?sel \<in> set (audioStreams info)"
    by auto
  have S: "''0:'' @ show_int (index ?sel) = f (index ?sel)"
    and A: "map (\<lambda>a. ''0:'' @ show_int (index a)) (audioStreams info) = map f ?A"
    and B: "map (\<lambda>s. ''0:'' @ show_int (index s)) (subtitleStreams info) = map f ?B"
    by (simp_all add: comp_def f_def)
  have "inj f" unfolding f_def by (rule map_target_inj)
  then have cA: "count_list (map f ?A) (f (index ?sel)) = count_list ?A (index ?sel)"
    and cB: "count_list (map f ?B) (f (index ?sel)) = count_list ?B (index ?sel)"
    by (rule count_list_map_conv)+
  have V: "''0:V'' \<noteq> f (index ?sel)" unfolding f_def by (rule all_video_is_no_index)
  have inA: "index ?sel \<in> set ?A" using mem by simp
  then have ge: "1 \<le> count_list ?A (index ?sel)"
    using count_list_0_iff [of ?A "index ?sel"] by simp
  have total: "count_list (''0:V'' # f (index ?sel) # map f ?A @ map f ?B) (f (index ?sel)) =
      1 + count_list ?A (index ?sel) + count_list ?B (index ?sel)"
    by (simp only: count_list.simps count_list_append cA cB) (simp add: V)
  have exact: "count_list ?A (index ?sel) = 1 \<and> count_list ?B (index ?sel) = 0"
    if d: "distinct (map FfprobeStream.index (streams p))"
  proof -
    have "distinct (?A @ ?B)"
      unfolding au su catalog_audio_indices catalog_subtitle_indices
      by (rule distinct_map_two_filters [OF d]) auto
    then have "distinct ?A" "index ?sel \<notin> set ?B" using inA by auto
    then show ?thesis using inA by (simp add: count_list_distinct)
  qed
  have shape: "\<exists>tail. getMkvOutputArguments join this' outputFolderPath info =
            [''-codec'', ''copy'', ''-map_metadata'', ''-1'', ''-map_chapters'', ''-1''] @
            concat (map (\<lambda>t. [''-map'', t]) (''0:V'' # f (index ?sel) # map f ?A @ map f ?B)) @
            ''-codec:a:0'' # tail"
    unfolding getMkvOutputArguments_eq A B S by simp
  show ?thesis
    unfolding Let_def A B S using shape total ge exact by simp
qed

text \<open>The scenario's plan: the mappings are 0:V, 0:1, 0:1, 0:2.\<close>

theorem mkv_stream_mappings_witness:
  "collectConversionInfo (fromIMovie EXAMPLE_CONFIG_movie) scenarioProbe [''1'', ''2''] =
     Some ((fromIMovie EXAMPLE_CONFIG_movie)\<lparr>conversionInfo := Some scenarioPlan\<rparr>, [])
   \<and> distinct (map FfprobeStream.index (streams scenarioProbe))
   \<and> take 14 (getMkvOutputArguments (join_str ''/'') EXAMPLE_CONFIG_movie ''./converted'' scenarioPlan) =
       [''-codec'', ''copy'', ''-map_metadata'', ''-1'', ''-map_chapters'', ''-1'',
        ''-map'', ''0:V'', ''-map'', ''0:1'', ''-map'', ''0:1'', ''-map'', ''0:2'']
   \<and> count_list [''0:V'', ''0:1'', ''0:1'', ''0:2''] ''0:1'' = 2"
proof -
  have d: "distinct (map FfprobeStream.index (streams scenarioProbe))"
    by (simp add: scenarioProbe_def)
  have s: "show_int 1 = ''1''" "show_int 2 = ''2''"
    by (simp_all add: show_int_def show_nat.simps digit_char_def)
  have "conversionInfo ((fromIMovie EXAMPLE_CONFIG_movie :: int Movie)\<lparr>conversionInfo := Some scenarioPlan\<rparr>)
      = Some scenarioPlan" by simp
  from mkv_stream_mappings [OF scenario_collect this,
      of "join_str ''/''" EXAMPLE_CONFIG_movie "''./converted''"] d
  show ?thesis
    using scenario_collect
    by (auto simp: Let_def scenarioPlan_def scenarioAudio_def scenarioSubtitle_def s)
qed

section \<open>The mkv output: output audio stream 0\<close>

lemma join_str_Cons:
  "join_str sep (x # xs) = x @ (if xs = [] then [] else sep @ join_str sep xs)"
  by (cases xs) simp_all

lemma default_disposition_arguments:
  "getStreamDispositionArguments spec ds True =
     [''-disposition:'' @ spec, ''default'' @ (if ds = [] then [] else ''+'' @ join_str ''+'' ds)]"
  by (simp add: getStreamDispositionArguments_def getDisposition_def join_str_Cons)

lemma other_disposition_arguments:
  "getStreamDispositionArguments spec ds False =
     (if join_str ''+'' ds = [] then [] else [''-disposition:'' @ spec, join_str ''+'' ds])"
  by (simp add: getStreamDispositionArguments_def getDisposition_def)

lemma first_audio_metadata_arguments:
  "getStreamMetadataArguments ''a:0'' lang ''aac'' None (Some ''stereo'') =
     [''-metadata:s:a:0'',
      ''title='' @ (case lang of None \<Rightarrow> ''???'' | Some l \<Rightarrow> l) @ '' aac stereo''] @
     (case lang of None \<Rightarrow> [] | Some l \<Rightarrow> [''-metadata:s:a:0'', ''language='' @ l])"
  by (simp add: getStreamMetadataArguments_def getStreamTitle_def split: option.split)

lemma length_map_flags: "length (concat (map (\<lambda>t. [flag, t]) ts)) = 2 * length ts"
  by (induction ts) simp_all

text \<open>
  C2, as the code has it: after the mappings, output audio stream 0 gets the codec aac, the
  bitrate 128k and 2 channels, the title "<language or ???> aac stereo" with no bracketed
  segment whether or not the selected stream has a title (the call passes no original
  title), a language argument exactly when the selected stream has a language, and the
  disposition made of "default" and the selected stream's dispositions without default,
  joined with "+".
\<close>

theorem first_audio_output_arguments:
  "\<exists>pre post.
     getMkvOutputArguments join this outputFolderPath info =
       pre @
       [''-codec:a:0'', ''aac'', ''-b:a:0'', ''128k'', ''-ac:a:0'', ''2'',
        ''-metadata:s:a:0'',
        ''title='' @ (case language (selectedAudioStream info) of None \<Rightarrow> ''???'' | Some l \<Rightarrow> l) @
          '' aac stereo''] @
       (case language (selectedAudioStream info) of
          None \<Rightarrow> []
        | Some l \<Rightarrow> [''-metadata:s:a:0'', ''language='' @ l]) @
       [''-disposition:a:0'',
        join_str ''+'' (''default'' # dispositionsWithoutDefault (selectedAudioStream info))] @
       post
     \<and> length pre = 10 + 2 * length (audioStreams info) + 2 * length (subtitleStreams info)"
proof -
  let ?pre = "[''-codec'', ''copy'', ''-map_metadata'', ''-1'', ''-map_chapters'', ''-1''] @
     concat (map (\<lambda>t. [''-map'', t])
       (''0:V'' # (''0:'' @ show_int (index (selectedAudioStream info))) #
        map (\<lambda>a. ''0:'' @ show_int (index a)) (audioStreams info) @
        map (\<lambda>s. ''0:'' @ show_int (index s)) (subtitleStreams info)))"
  have l: "length ?pre = 10 + 2 * length (audioStreams info) + 2 * length (subtitleStreams info)"
    unfolding length_append length_map_flags by simp
  have d: "getStreamDispositionArguments ''a:0''
       (dispositionsWithoutDefault (selectedAudioStream info)) True =
     [''-disposition:a:0'',
        join_str ''+'' (''default'' # dispositionsWithoutDefault (selectedAudioStream info))]"
    by (simp add: default_disposition_arguments join_str_Cons)
  show ?thesis
    apply (rule exI [of _ ?pre])
    apply (subst getMkvOutputArguments_eq)
    apply (subst first_audio_metadata_arguments)
    apply (subst d)
    apply (intro exI conjI)
     apply (simp only: append_assoc append_Cons append_Nil)
    apply (rule l)
    done
qed

lemma show_nat_small: "show_nat 0 = ''0''" "show_nat (Suc 0) = ''1''" "show_nat 1 = ''1''"
  by (simp_all add: show_nat.simps digit_char_def)

lemma show_int_small: "show_int 1 = ''1''" "show_int 2 = ''2''"
  by (simp_all add: show_int_def show_nat.simps digit_char_def)

text \<open>
  C2 as it is written fails: the selected stream of this plan has the title "Surround", and
  the title of output audio stream 0 is "eng aac stereo", with no bracketed segment.
\<close>

theorem first_audio_title_drops_original_title:
  "Stream.title (selectedAudioStream titledPlan) = Some ''Surround''
   \<and> getMkvOutputArguments (join_str ''/'') EXAMPLE_CONFIG_movie ''./converted'' titledPlan ! 21
       = ''title=eng aac stereo''
   \<and> ''title=eng aac stereo [Surround]''
       \<notin> set (getMkvOutputArguments (join_str ''/'') EXAMPLE_CONFIG_movie ''./converted'' titledPlan)"
  by (simp add: getMkvOutputArguments_eq titledPlan_def titledAudio_def scenarioPlan_def
      scenarioAudio_def scenarioSubtitle_def getStreamMetadataArguments_def getStreamTitle_def
      getStreamDispositionArguments_def getDisposition_def enumerate_eq_zip
      show_nat_small show_int_small getMkvOutputFilePath_def getOutputSubfolderPath_def
      getFullyQualifiedName_def)

section \<open>The mkv output: dispositions\<close>

lemma join_str_empty_iff: "sep \<noteq> [] \<Longrightarrow> join_str sep ds = [] \<longleftrightarrow> ds = [] \<or> ds = [[]]"
  by (cases ds) (auto simp: join_str_Cons)

lemma other_disposition_arguments_cases:
  "getStreamDispositionArguments spec ds False =
     (if ds = [] \<or> ds = [[]] then [] else [''-disposition:'' @ spec, join_str ''+'' ds])"
  unfolding other_disposition_arguments by (simp add: join_str_empty_iff)

text \<open>
  C3: for the plan that \<open>collectConversionInfo\<close> leaves in the movie, the mkv arguments
  end with the disposition of output audio stream 0, which starts with "default", then for
  every cataloged audio stream and every cataloged subtitle stream its metadata arguments
  and, unless its list of dispositions is empty (or holds the empty flag only, whose join
  is empty too), the "-disposition" pair with the joined list; no such list holds
  "default". A stream with an empty list gets no "-disposition" pair.
\<close>

theorem default_disposition_only_on_first_audio:
  assumes "collectConversionInfo this0 p answers = Some (this, rest)"
    and "conversionInfo this = Some info"
  shows
    "(\<exists>pre. getMkvOutputArguments join this' outputFolderPath info =
        pre @
        [''-disposition:a:0'',
         ''default'' @
           (if dispositionsWithoutDefault (selectedAudioStream info) = [] then []
            else ''+'' @ join_str ''+'' (dispositionsWithoutDefault (selectedAudioStream info)))] @
        concat (map (\<lambda>(i, a).
            getStreamMetadataArguments (''a:'' @ show_nat (i + 1)) (language a) (codecName a)
              (Stream.title a) (Some (channelLayout a)) @
            (if dispositionsWithoutDefault a = [] \<or> dispositionsWithoutDefault a = [[]] then []
             else [''-disposition:'' @ ''a:'' @ show_nat (i + 1),
                   join_str ''+'' (dispositionsWithoutDefault a)]))
          (enumerate 0 (audioStreams info))) @
        concat (map (\<lambda>(i, s).
            getStreamMetadataArguments (''s:'' @ show_nat i) (language s) (codecName s)
              (Stream.title s) None @
            (if dispositionsWithoutDefault s = [] \<or> dispositionsWithoutDefault s = [[]] then []
             else [''-disposition:'' @ ''s:'' @ show_nat i,
                   join_str ''+'' (dispositionsWithoutDefault s)]))
          (enumerate 0 (subtitleStreams info))) @
        [getMkvOutputFilePath join this' outputFolderPath (selectedSubtitleStream info)])
     \<and> (\<forall>a \<in> set (audioStreams info). ''default'' \<notin> set (dispositionsWithoutDefault a))
     \<and> (\<forall>s \<in> set (subtitleStreams info). ''default'' \<notin> set (dispositionsWithoutDefault s))"
proof (intro conjI)
  from collectConversionInfo_plan [OF assms(1)] assms(2)
  have au: "audioStreams info = ContainerInfo.audioStreams (getInputFileMediaInfo p)"
    and su: "subtitleStreams info = ContainerInfo.subtitleStreams (getInputFileMediaInfo p)"
    by auto
  show "\<forall>a \<in> set (audioStreams info). ''default'' \<notin> set (dispositionsWithoutDefault a)"
    unfolding au using catalog_audio_no_default by blast
  show "\<forall>s \<in> set (subtitleStreams info). ''default'' \<notin> set (dispositionsWithoutDefault s)"
    unfolding su using catalog_subtitle_no_default by blast
  show "\<exists>pre. getMkvOutputArguments join this' outputFolderPath info =
        pre @
        [''-disposition:a:0'',
         ''default'' @
           (if dispositionsWithoutDefault (selectedAudioStream info) = [] then []
            else ''+'' @ join_str ''+'' (dispositionsWithoutDefault (selectedAudioStream info)))] @
        concat (map (\<lambda>(i, a).
            getStreamMetadataArguments (''a:'' @ show_nat (i + 1)) (language a) (codecName a)
              (Stream.title a) (Some (channelLayout a)) @
            (if dispositionsWithoutDefault a = [] \<or> dispositionsWithoutDefault a = [[]] then []
             else [''-disposition:'' @ ''a:'' @ show_nat (i + 1),
                   join_str ''+'' (dispositionsWithoutDefault a)]))
          (enumerate 0 (audioStreams info))) @
        concat (map (\<lambda>(i, s).
            getStreamMetadataArguments (''s:'' @ show_nat i) (language s) (codecName s)
              (Stream.title s) None @
            (if dispositionsWithoutDefault s = [] \<or> dispositionsWithoutDefault s = [[]] then []
             else [''-disposition:'' @ ''s:'' @ show_nat i,
                   join_str ''+'' (dispositionsWithoutDefault s)]))
          (enumerate 0 (subtitleStreams info))) @
        [getMkvOutputFilePath join this' outputFolderPath (selectedSubtitleStream info)]"
    by (rule exI [of _
          "[''-codec'', ''copy'', ''-map_metadata'', ''-1'', ''-map_chapters'', ''-1''] @
           concat (map (\<lambda>t. [''-map'', t])
             (''0:V'' # (''0:'' @ show_int (index (selectedAudioStream info))) #
              map (\<lambda>a. ''0:'' @ show_int (index a)) (audioStreams info) @
              map (\<lambda>s. ''0:'' @ show_int (index s)) (subtitleStreams info))) @
           [''-codec:a:0'', ''aac'', ''-b:a:0'', ''128k'', ''-ac:a:0'', ''2''] @
           getStreamMetadataArguments ''a:0'' (language (selectedAudioStream info)) ''aac'' None
             (Some ''stereo'')"])
       (simp add: getMkvOutputArguments_eq default_disposition_arguments
          other_disposition_arguments_cases cong: if_cong)
qed

lemma commentary_collect:
  "collectConversionInfo (fromIMovie EXAMPLE_CONFIG_movie) commentaryProbe [''9'', ''2'', ''3''] =
     Some ((fromIMovie EXAMPLE_CONFIG_movie)\<lparr>conversionInfo := Some commentaryPlan\<rparr>, [])"
  by (simp add: collectConversionInfo_def getInputFileMediaInfo_def commentaryProbe_def
      commentaryPlan_def commentaryMain_def commentaryTrack_def commentarySubtitle_def Let_def
      parseInt10_def is_white_space_def is_digit_def digit_val_def
      convertFfprobeDispositionMapToDispositionListWithoutDefault_def)

lemma commentary_arguments:
  "getMkvOutputArguments (join_str ''/'') EXAMPLE_CONFIG_movie ''./converted'' commentaryPlan =
     [''-codec'', ''copy'', ''-map_metadata'', ''-1'', ''-map_chapters'', ''-1'',
      ''-map'', ''0:V'', ''-map'', ''0:2'', ''-map'', ''0:1'', ''-map'', ''0:2'', ''-map'', ''0:3'',
      ''-codec:a:0'', ''aac'', ''-b:a:0'', ''128k'', ''-ac:a:0'', ''2'',
      ''-metadata:s:a:0'', ''title=??? aac stereo'',
      ''-disposition:a:0'', ''default+comment'',
      ''-metadata:s:a:1'', ''title=eng dts 5.1'', ''-metadata:s:a:1'', ''language=eng'',
      ''-metadata:s:a:2'', ''title=??? ac3 stereo [Commentary]'',
      ''-disposition:a:2'', ''comment'',
      ''-metadata:s:s:0'', ''title=??? subrip'',
      ''-disposition:s:0'', ''forced'',
      ''./converted/ready/The Matrix (1999)/The Matrix (1999).mkv'']"
  by (simp add: getMkvOutputArguments_eq commentaryPlan_def commentaryMain_def
      commentaryTrack_def commentarySubtitle_def getStreamMetadataArguments_def
      getStreamTitle_def getStreamDispositionArguments_def getDisposition_def enumerate_eq_zip
      show_nat.simps show_int_def digit_char_def getMkvOutputFilePath_def
      getOutputSubfolderPath_def getFullyQualifiedName_def fileNameSafeChar_def
      EXAMPLE_CONFIG_movie_def upt_rec)

text \<open>
  The commentary plan: "default+comment" for output audio stream 0, no pair for the main
  stream, "comment" and "forced" for the others.
\<close>

theorem default_disposition_only_on_first_audio_witness:
  "collectConversionInfo (fromIMovie EXAMPLE_CONFIG_movie) commentaryProbe [''9'', ''2'', ''3''] =
     Some ((fromIMovie EXAMPLE_CONFIG_movie)\<lparr>conversionInfo := Some commentaryPlan\<rparr>, [])
   \<and> ''default'' \<notin> set (dispositionsWithoutDefault commentaryMain)
   \<and> ''default'' \<notin> set (dispositionsWithoutDefault commentaryTrack)
   \<and> ''default'' \<notin> set (dispositionsWithoutDefault commentarySubtitle)
   \<and> drop 24 (getMkvOutputArguments (join_str ''/'') EXAMPLE_CONFIG_movie ''./converted''
         commentaryPlan) =
      [''-disposition:a:0'', ''default+comment'',
       ''-metadata:s:a:1'', ''title=eng dts 5.1'', ''-metadata:s:a:1'', ''language=eng'',
       ''-metadata:s:a:2'', ''title=??? ac3 stereo [Commentary]'',
       ''-disposition:a:2'', ''comment'',
       ''-metadata:s:s:0'', ''title=??? subrip'',
       ''-disposition:s:0'', ''forced'',
       ''./converted/ready/The Matrix (1999)/The Matrix (1999).mkv'']"
proof -
  have "conversionInfo ((fromIMovie EXAMPLE_CONFIG_movie :: int Movie)\<lparr>conversionInfo := Some commentaryPlan\<rparr>)
      = Some commentaryPlan" by simp
  from default_disposition_only_on_first_audio [OF commentary_collect this]
  have "\<forall>a \<in> set (audioStreams commentaryPlan). ''default'' \<notin> set (dispositionsWithoutDefault a)"
    and "\<forall>s \<in> set (subtitleStreams commentaryPlan). ''default'' \<notin> set (dispositionsWithoutDefault s)"
    by blast+
  then have "''default'' \<notin> set (dispositionsWithoutDefault commentaryMain)"
    "''default'' \<notin> set (dispositionsWithoutDefault commentaryTrack)"
    "''default'' \<notin> set (dispositionsWithoutDefault commentarySubtitle)"
    by (simp_all add: commentaryPlan_def)
  then show ?thesis
    using commentary_collect by (simp add: commentary_arguments)
qed

section \<open>Selection rounds\<close>

lemma find_index_match:
  "(\<exists>a \<in> set ss. parseInt10 answer = Some (index a)) \<Longrightarrow>
     \<exists>a \<in> set ss. parseInt10 answer = Some (index a) \<and>
       find (\<lambda>s. Some (index s) = parseInt10 answer) ss = Some a"
  by (induction ss) auto

lemma find_index_no_match:
  "\<not> (\<exists>a \<in> set ss. parseInt10 answer = Some (index a)) \<Longrightarrow>
     find (\<lambda>s. Some (index s) = parseInt10 answer) ss = None"
  by (induction ss) auto

text \<open>
  C10: a round of the audio prompt returns a cataloged stream, leaving the answers after
  this one, when \<open>Number.parseInt\<close> of the answer is the index of a cataloged stream,
  and goes on to the next answer otherwise; a round of the subtitle prompt returns no
  selection on the empty answer and behaves in the same way on any other. An answer that
  is the decimal notation of a number followed by anything that does not go on with a
  digit parses as that number, so "2x" selects index 2.
\<close>

theorem selection_round_accepts_parsed_index:
  "((\<exists>a \<in> set audioStreams'. parseInt10 answer = Some (index a)) \<longrightarrow>
      (\<exists>a \<in> set audioStreams'. parseInt10 answer = Some (index a) \<and>
         selectAudioStream audioStreams' (answer # answers) = Some (a, answers)))
   \<and> (\<not> (\<exists>a \<in> set audioStreams'. parseInt10 answer = Some (index a)) \<longrightarrow>
      selectAudioStream audioStreams' (answer # answers) = selectAudioStream audioStreams' answers)
   \<and> selectSubtitleStream subtitleStreams' ([] # answers) = Some (None, answers)
   \<and> (answer \<noteq> [] \<and> (\<exists>s \<in> set subtitleStreams'. parseInt10 answer = Some (index s)) \<longrightarrow>
      (\<exists>s \<in> set subtitleStreams'. parseInt10 answer = Some (index s) \<and>
         selectSubtitleStream subtitleStreams' (answer # answers) = Some (Some s, answers)))
   \<and> (answer \<noteq> [] \<and> \<not> (\<exists>s \<in> set subtitleStreams'. parseInt10 answer = Some (index s)) \<longrightarrow>
      selectSubtitleStream subtitleStreams' (answer # answers) =
        selectSubtitleStream subtitleStreams' answers)
   \<and> ((trailing = [] \<or> \<not> is_digit (hd trailing)) \<longrightarrow>
        parseInt10 (show_int i @ trailing) = Some i)"
proof (intro conjI impI)
  assume m: "\<exists>a \<in> set audioStreams'. parseInt10 answer = Some (index a)"
  from find_index_match [OF m]
  show "\<exists>a \<in> set audioStreams'. parseInt10 answer = Some (index a) \<and>
         selectAudioStream audioStreams' (answer # answers) = Some (a, answers)"
    by (auto simp: Let_def)
next
  assume "\<not> (\<exists>a \<in> set audioStreams'. parseInt10 answer = Some (index a))"
  from find_index_no_match [OF this]
  show "selectAudioStream audioStreams' (answer # answers) = selectAudioStream audioStreams' answers"
    by (simp add: Let_def)
next
  show "selectSubtitleStream subtitleStreams' ([] # answers) = Some (None, answers)"
    by simp
next
  assume "answer \<noteq> [] \<and> (\<exists>s \<in> set subtitleStreams'. parseInt10 answer = Some (index s))"
  then have n: "answer \<noteq> []" and m: "\<exists>s \<in> set subtitleStreams'. parseInt10 answer = Some (index s)"
    by simp_all
  from find_index_match [OF m] n
  show "\<exists>s \<in> set subtitleStreams'. parseInt10 answer = Some (index s) \<and>
         selectSubtitleStream subtitleStreams' (answer # answers) = Some (Some s, answers)"
    by (auto simp: Let_def)
next
  assume "answer \<noteq> [] \<and> \<not> (\<exists>s \<in> set subtitleStreams'. parseInt10 answer = Some (index s))"
  then have n: "answer \<noteq> []"
    and m: "\<not> (\<exists>s \<in> set subtitleStreams'. parseInt10 answer = Some (index s))"
    by simp_all
  from find_index_no_match [OF m] n
  show "selectSubtitleStream subtitleStreams' (answer # answers) =
        selectSubtitleStream subtitleStreams' answers"
    by (simp add: Let_def)
next
  assume "trailing = [] \<or> \<not> is_digit (hd trailing)"
  then show "parseInt10 (show_int i @ trailing) = Some i" by (rule parseInt10_show_int)
qed

text \<open>
  On the scenario's catalog "2x" selects the subtitle stream of index 2, "x1" and "x2" are
  asked again, and the empty answer selects no subtitle.
\<close>

theorem selection_round_accepts_parsed_index_witness:
  "parseInt10 ''2x'' = Some 2
   \<and> selectSubtitleStream [scenarioSubtitle] [''2x'', ''7''] = Some (Some scenarioSubtitle, [''7''])
   \<and> selectAudioStream [scenarioAudio] [''x1'', ''1''] = selectAudioStream [scenarioAudio] [''1'']
   \<and> selectAudioStream [scenarioAudio] [''1''] = Some (scenarioAudio, [])
   \<and> selectSubtitleStream [scenarioSubtitle] [''x2'', ''''] = Some (None, [])"
proof -
  have x: "\<not> is_digit (hd ''x'')" by (simp add: is_digit_def)
  have p: "parseInt10 ''2x'' = Some 2" "parseInt10 ''1'' = Some 1" "parseInt10 ''x1'' = None"
    "parseInt10 ''x2'' = None"
    by (simp_all add: parseInt10_def is_white_space_def is_digit_def digit_val_def)
  note t = selection_round_accepts_parsed_index
  from t [of "[scenarioAudio]" "''1''" "[]" "[scenarioSubtitle]" "[]" 2]
  have a1: "selectAudioStream [scenarioAudio] [''1''] = Some (scenarioAudio, [])"
    by (simp add: p scenarioAudio_def)
  from t [of "[scenarioAudio]" "''x1''" "[''1'']" "[scenarioSubtitle]" "[]" 2]
  have a2: "selectAudioStream [scenarioAudio] [''x1'', ''1''] = selectAudioStream [scenarioAudio] [''1'']"
    by (simp add: p)
  from t [of "[scenarioAudio]" "''2x''" "[''7'']" "[scenarioSubtitle]" "''x''" 2]
  have s1: "selectSubtitleStream [scenarioSubtitle] [''2x'', ''7''] = Some (Some scenarioSubtitle, [''7''])"
    by (simp add: p scenarioSubtitle_def)
  from t [of "[scenarioAudio]" "''x2''" "[[]]" "[scenarioSubtitle]" "''x''" 2]
  have s2: "selectSubtitleStream [scenarioSubtitle] [''x2'', ''''] = selectSubtitleStream [scenarioSubtitle] ['''']"
    by (simp add: p)
  from t [of "[scenarioAudio]" "''x2''" "[]" "[scenarioSubtitle]" "''x''" 2]
  have s3: "selectSubtitleStream [scenarioSubtitle] [''''] = Some (None, [])"
    by simp
  from t [of "[scenarioAudio]" "''1''" "[]" "[scenarioSubtitle]" "''x''" 2] x
  have px: "parseInt10 ''2x'' = Some 2"
    by (simp add: show_int_small)
  show ?thesis using px a1 a2 s1 s2 s3 by simp
qed

section \<open>The progress patterns\<close>

lemma regexMatchAt_Some_iff:
  "regexMatchAt key s = Some v \<longleftrightarrow>
     (\<exists>post. s = key @ v @ CHR 0x0A # post \<and> v \<noteq> [] \<and> (\<forall>c \<in> set v. \<not> isLineTerminator c))"
proof
  assume a: "regexMatchAt key s = Some v"
  let ?rest = "drop (length key) s"
  let ?P = "\<lambda>c. \<not> isLineTerminator c"
  from a have k: "take (length key) s = key"
    by (simp add: regexMatchAt_def split: if_splits)
  with a have v: "v = takeWhile ?P ?rest" and n: "v \<noteq> []"
    and d: "dropWhile ?P ?rest \<noteq> []" "hd (dropWhile ?P ?rest) = CHR 0x0A"
    by (auto simp: regexMatchAt_def Let_def split: if_splits)
  from d have "dropWhile ?P ?rest = CHR 0x0A # tl (dropWhile ?P ?rest)"
    by (cases "dropWhile ?P ?rest") simp_all
  then have "?rest = v @ CHR 0x0A # tl (dropWhile ?P ?rest)"
    unfolding v by (metis takeWhile_dropWhile_id)
  moreover have "s = key @ ?rest" using k by (metis append_take_drop_id)
  moreover have "\<forall>c \<in> set v. ?P c" unfolding v by (auto dest: set_takeWhileD)
  ultimately show "\<exists>post. s = key @ v @ CHR 0x0A # post \<and> v \<noteq> [] \<and> (\<forall>c \<in> set v. ?P c)"
    using n by metis
next
  assume "\<exists>post. s = key @ v @ CHR 0x0A # post \<and> v \<noteq> [] \<and> (\<forall>c \<in> set v. \<not> isLineTerminator c)"
  then obtain post where s: "s = key @ v @ CHR 0x0A # post" and n: "v \<noteq> []"
    and p: "\<forall>c \<in> set v. \<not> isLineTerminator c" by blast
  have lf: "\<not> \<not> isLineTerminator (CHR 0x0A)" by (simp add: isLineTerminator_def)
  have t: "takeWhile (\<lambda>c. \<not> isLineTerminator c) (v @ CHR 0x0A # post) = v"
    using p by (simp add: takeWhile_tail [where P = "\<lambda>c. \<not> isLineTerminator c", OF lf])
  have d: "dropWhile (\<lambda>c. \<not> isLineTerminator c) (v @ CHR 0x0A # post) = CHR 0x0A # post"
    using p by (simp add: dropWhile_append3 [where P = "\<lambda>c. \<not> isLineTerminator c", OF lf])
  show "regexMatchAt key s = Some v"
    unfolding regexMatchAt_def s using n lf by (simp add: t d)
qed

lemma regexMatch_Some_iff:
  "(\<exists>v. regexMatch key s = Some v) \<longleftrightarrow>
     (\<exists>pre suffix v. s = pre @ suffix \<and> regexMatchAt key suffix = Some v)"
proof (induction s)
  case Nil
  then show ?case by simp
next
  case (Cons c s)
  show ?case
  proof (cases "regexMatchAt key (c # s)")
    case (Some v)
    then have "regexMatch key (c # s) = Some v" by simp
    moreover have "c # s = [] @ (c # s)" by simp
    ultimately show ?thesis using Some by blast
  next
    case None
    then have r: "regexMatch key (c # s) = regexMatch key s" by simp
    have "(\<exists>pre suffix v. c # s = pre @ suffix \<and> regexMatchAt key suffix = Some v) \<longleftrightarrow>
          (\<exists>pre suffix v. s = pre @ suffix \<and> regexMatchAt key suffix = Some v)"
    proof
      assume "\<exists>pre suffix v. c # s = pre @ suffix \<and> regexMatchAt key suffix = Some v"
      then obtain pre suffix v where e: "c # s = pre @ suffix"
        and m: "regexMatchAt key suffix = Some v"
        by blast
      show "\<exists>pre suffix v. s = pre @ suffix \<and> regexMatchAt key suffix = Some v"
      proof (cases pre)
        case Nil
        with e m None show ?thesis by simp
      next
        case (Cons x pre')
        with e have "s = pre' @ suffix" by simp
        with m show ?thesis by blast
      qed
    next
      assume "\<exists>pre suffix v. s = pre @ suffix \<and> regexMatchAt key suffix = Some v"
      then obtain pre suffix v where "s = pre @ suffix" and m: "regexMatchAt key suffix = Some v"
        by blast
      then have "c # s = (c # pre) @ suffix" by simp
      with m show "\<exists>pre suffix v. c # s = pre @ suffix \<and> regexMatchAt key suffix = Some v"
        by blast
    qed
    with Cons.IH r show ?thesis by simp
  qed
qed

lemma regexMatch_None_iff:
  "regexMatch key s = None \<longleftrightarrow>
     \<not> (\<exists>pre v post. s = pre @ key @ v @ CHR 0x0A # post \<and> v \<noteq> [] \<and>
          (\<forall>c \<in> set v. \<not> isLineTerminator c))"
proof -
  have "regexMatch key s = None \<longleftrightarrow> \<not> (\<exists>v. regexMatch key s = Some v)" by auto
  also have "\<dots> \<longleftrightarrow> \<not> (\<exists>pre suffix v. s = pre @ suffix \<and> regexMatchAt key suffix = Some v)"
    by (simp only: regexMatch_Some_iff)
  also have "\<dots> \<longleftrightarrow> \<not> (\<exists>pre v post. s = pre @ key @ v @ CHR 0x0A # post \<and> v \<noteq> [] \<and>
          (\<forall>c \<in> set v. \<not> isLineTerminator c))"
    unfolding regexMatchAt_Some_iff by blast
  finally show ?thesis .
qed

section \<open>The scenario's invocation\<close>

lemma show_int_1999: "show_int 1999 = ''1999''"
  by (simp add: show_int_def show_nat.simps digit_char_def)

lemma example_name:
  "getFullyQualifiedName EXAMPLE_CONFIG_movie safe = ''The Matrix (1999)''"
  "getFullyQualifiedName (fromIMovie EXAMPLE_CONFIG_movie) safe = ''The Matrix (1999)''"
  "getFullyQualifiedName scenarioMovie safe = ''The Matrix (1999)''"
  by (simp_all add: getFullyQualifiedName_def EXAMPLE_CONFIG_movie_def fileNameSafeChar_def
      show_int_1999 fromIMovie_def scenarioMovie_def Let_def)

lemma initial_percentage:
  "getRoundedProgressPercentage fixedPointNumbers (numOfInt fixedPointNumbers 0) = ''0.00''"
  by (simp add: getRoundedProgressPercentage_def fixedPointNumbers_def fixedPointToFixed_def
      show_nat.simps digit_char_def numeral_2_eq_2 Let_def)

lemma scenario_convert:
  "convert fixedPointNumbers (join_str ''/'') scenarioMovie ''./converted'' ''/usr/local/bin/ffmpeg'' =
     Inr scenarioProcess"
  by (simp add: convert_def scenarioMovie_def [THEN arg_cong [of _ _ conversionInfo]]
      scenarioMovie_def [THEN arg_cong [of _ _ inputFilePath]] fromIMovie_def
      EXAMPLE_CONFIG_movie_def [THEN arg_cong [of _ _ inputFilePath]]
      scenarioProcess_def initial_percentage getMkvOutputArguments_eq getSrtOutputArguments_def
      getSrtOutputFilePath_def getMkvOutputFilePath_def getOutputSubfolderPath_def example_name
      scenarioPlan_def scenarioAudio_def scenarioSubtitle_def getStreamMetadataArguments_def
      getStreamTitle_def getStreamDispositionArguments_def getDisposition_def enumerate_eq_zip
      show_nat_small show_int_small)

lemma scenario_process_fields:
  "stderrText scenarioProcess = []" "consoleLines scenarioProcess = []"
  "roundedProgressPercentage scenarioProcess = ''0.00''"
  by (simp_all add: scenarioProcess_def)

lemma half_way_chunk:
  "onStdoutData fixedPointNumbers scenarioMovie 816000000000 1 1 scenarioProcess
     ''frame=100\<newline>out_time_us=4080000000\<newline>speed=1.5x\<newline>progress=continue\<newline>'' =
   Inr (scenarioProcess\<lparr>roundedProgressPercentage := ''50.00'',
          consoleLines := [''[1 / 1] The Matrix (1999) [50.00% at 1.5x]'']\<rparr>)"
  by (simp add: onStdoutData_def regexMatchAt_def isLineTerminator_def
      getRoundedProgressPercentage_def fixedPointNumbers_def fixedPointToFixed_def
      show_nat.simps digit_char_def numeral_2_eq_2 parseInt10_def is_white_space_def
      is_digit_def digit_val_def Let_def logProgress_def example_name show_int_small
      scenarioProcess_def)

section \<open>Chunks that lack a key\<close>

text \<open>
  C9: the handler throws a TypeError exactly on the chunks that lack a match of
  \<open>out_time_us=\<close> or of \<open>speed=\<close> followed by a non-empty value without line terminator
  and a line feed; on every chunk that holds both it returns. It never skips a chunk that
  lacks one.
\<close>

theorem progress_handler_requires_both_keys:
  "(let present = (\<lambda>key. \<exists>pre v post. data = pre @ key @ v @ CHR 0x0A # post \<and> v \<noteq> [] \<and>
                      (\<forall>c \<in> set v. \<not> isLineTerminator c))
    in (\<not> present ''out_time_us='' \<or> \<not> present ''speed='' \<longrightarrow>
          onStdoutData N this containerDurationSeconds' currentFileIndex allFilesCount proc data =
            Inl (TypeError ''Cannot read properties of null''))
       \<and> (present ''out_time_us='' \<and> present ''speed='' \<longrightarrow>
          (\<exists>proc'. onStdoutData N this containerDurationSeconds' currentFileIndex allFilesCount
                     proc data = Inr proc')))"
proof -
  have o: "(\<exists>pre v post. data = pre @ ''out_time_us='' @ v @ CHR 0x0A # post \<and> v \<noteq> [] \<and>
              (\<forall>c \<in> set v. \<not> isLineTerminator c)) \<longleftrightarrow>
           regexMatch ''out_time_us='' data \<noteq> None"
    by (simp only: regexMatch_None_iff not_not)
  have s: "(\<exists>pre v post. data = pre @ ''speed='' @ v @ CHR 0x0A # post \<and> v \<noteq> [] \<and>
              (\<forall>c \<in> set v. \<not> isLineTerminator c)) \<longleftrightarrow>
           regexMatch ''speed='' data \<noteq> None"
    by (simp only: regexMatch_None_iff not_not)
  show ?thesis
    unfolding Let_def o s
  proof (intro conjI impI)
    assume "\<not> regexMatch ''out_time_us='' data \<noteq> None \<or> \<not> regexMatch ''speed='' data \<noteq> None"
    then show "onStdoutData N this containerDurationSeconds' currentFileIndex allFilesCount proc
        data = Inl (TypeError ''Cannot read properties of null'')"
      by (auto simp: onStdoutData_def split: option.splits)
  next
    assume "regexMatch ''out_time_us='' data \<noteq> None \<and> regexMatch ''speed='' data \<noteq> None"
    then show "\<exists>proc'. onStdoutData N this containerDurationSeconds' currentFileIndex
        allFilesCount proc data = Inr proc'"
      by (auto simp: onStdoutData_def Let_def split: option.splits)
  qed
qed

text \<open>
  A chunk without \<open>out_time_us\<close> and a chunk without \<open>speed\<close> throw; a chunk with both
  returns.
\<close>

theorem progress_handler_requires_both_keys_witness:
  "onStdoutData fixedPointNumbers EXAMPLE_CONFIG_movie 816000000000 1 1 scenarioProcess
     ''frame=10\<newline>speed=1.5x\<newline>progress=continue\<newline>'' =
       Inl (TypeError ''Cannot read properties of null'')
   \<and> onStdoutData fixedPointNumbers EXAMPLE_CONFIG_movie 816000000000 1 1 scenarioProcess
     ''out_time_us=N/A\<newline>'' = Inl (TypeError ''Cannot read properties of null'')
   \<and> (\<exists>proc'. onStdoutData fixedPointNumbers EXAMPLE_CONFIG_movie 816000000000 1 1 scenarioProcess
     ''out_time_us=N/A\<newline>speed=N/A\<newline>'' = Inr proc')"
proof -
  note t = progress_handler_requires_both_keys [unfolded Let_def,
      of _ fixedPointNumbers EXAMPLE_CONFIG_movie 816000000000 1 1 scenarioProcess]
  have m: "regexMatch ''out_time_us='' ''frame=10\<newline>speed=1.5x\<newline>progress=continue\<newline>'' = None"
    "regexMatch ''speed='' ''out_time_us=N/A\<newline>'' = None"
    "regexMatch ''out_time_us='' ''out_time_us=N/A\<newline>speed=N/A\<newline>'' \<noteq> None"
    "regexMatch ''speed='' ''out_time_us=N/A\<newline>speed=N/A\<newline>'' \<noteq> None"
    by (simp_all add: regexMatchAt_def isLineTerminator_def)
  have "onStdoutData fixedPointNumbers EXAMPLE_CONFIG_movie 816000000000 1 1 scenarioProcess
     ''frame=10\<newline>speed=1.5x\<newline>progress=continue\<newline>'' =
       Inl (TypeError ''Cannot read properties of null'')"
    using t [of "''frame=10\<newline>speed=1.5x\<newline>progress=continue\<newline>''"] m(1)
    unfolding regexMatch_None_iff by blast
  moreover have "onStdoutData fixedPointNumbers EXAMPLE_CONFIG_movie 816000000000 1 1 scenarioProcess
     ''out_time_us=N/A\<newline>'' = Inl (TypeError ''Cannot read properties of null'')"
    using t [of "''out_time_us=N/A\<newline>''"] m(2)
    unfolding regexMatch_None_iff by blast
  moreover have "\<exists>proc'. onStdoutData fixedPointNumbers EXAMPLE_CONFIG_movie 816000000000 1 1 scenarioProcess
     ''out_time_us=N/A\<newline>speed=N/A\<newline>'' = Inr proc'"
    using t [of "''out_time_us=N/A\<newline>speed=N/A\<newline>''"] m(3,4)
    unfolding regexMatch_None_iff by blast
  ultimately show ?thesis by blast
qed

section \<open>Calls out of sequence\<close>

lemma handleEvent_keeps_result:
  "handleEvent N d c a st ev = Inr st' \<Longrightarrow> (\<And>exitCode. ev \<noteq> Close exitCode) \<Longrightarrow>
     conversionResult (fst st') = conversionResult (fst st)"
  by (cases ev) (auto simp: handleEvent_def Let_def split: sum.splits)

lemma runEvents_keeps_result:
  "runEvents N d c a st evs = Inr st' \<Longrightarrow> (\<And>exitCode. Close exitCode \<notin> set evs) \<Longrightarrow>
     conversionResult (fst st') = conversionResult (fst st)"
proof (induction evs arbitrary: st)
  case Nil
  then show ?case by simp
next
  case (Cons ev evs)
  from Cons.prems(1) obtain st1 where h: "handleEvent N d c a st ev = Inr st1"
    and r: "runEvents N d c a st1 evs = Inr st'"
    by (auto split: sum.splits)
  have "conversionResult (fst st1) = conversionResult (fst st)"
    using handleEvent_keeps_result [OF h] Cons.prems(2) by (metis list.set_intros(1))
  moreover have "conversionResult (fst st') = conversionResult (fst st1)"
    using Cons.IH [OF r] Cons.prems(2) by (metis list.set_intros(2))
  ultimately show ?case by simp
qed

lemma collectConversionInfo_keeps_result:
  "collectConversionInfo this p answers = Some (this', rest) \<Longrightarrow>
     conversionResult this' = conversionResult this"
  by (auto simp: collectConversionInfo_def Let_def split: option.splits prod.splits)

text \<open>
  C8: \<open>convert\<close> on a movie without conversion info, such as a movie straight from
  \<open>fromIMovie\<close>, throws the assertion error, and \<open>getConversionResult\<close> on a movie
  without conversion result throws its own; the result is still missing after the planning
  and after any events of the spawned process that do not include its close.
\<close>

theorem out_of_sequence_calls_throw:
  "(conversionInfo this = None \<longrightarrow>
      convert N join this outputFolderPath ffmpegBinaryPath =
        Inl (Error ''AssertError: must call collectConversionInfo() before convert()''))
   \<and> convert N join (fromIMovie movie) outputFolderPath ffmpegBinaryPath =
        Inl (Error ''AssertError: must call collectConversionInfo() before convert()'')
   \<and> (conversionResult this = None \<longrightarrow>
        getConversionResult this = Inl (Error ''AssertError: conversion did not finish yet''))
   \<and> (collectConversionInfo (fromIMovie movie) p answers = Some (planned, rest)
        \<and> (\<forall>exitCode. Close exitCode \<notin> set evs)
        \<and> runEvents N containerDurationSeconds' currentFileIndex allFilesCount (planned, proc) evs =
            Inr (this', proc') \<longrightarrow>
        getConversionResult this' = Inl (Error ''AssertError: conversion did not finish yet''))"
proof (intro conjI impI)
  show "convert N join (fromIMovie movie) outputFolderPath ffmpegBinaryPath =
        Inl (Error ''AssertError: must call collectConversionInfo() before convert()'')"
    by (simp add: convert_def fromIMovie_def)
next
  assume "conversionInfo this = None"
  then show "convert N join this outputFolderPath ffmpegBinaryPath =
        Inl (Error ''AssertError: must call collectConversionInfo() before convert()'')"
    by (simp add: convert_def)
next
  assume "conversionResult this = None"
  then show "getConversionResult this = Inl (Error ''AssertError: conversion did not finish yet'')"
    by (simp add: getConversionResult_def)
next
  assume a: "collectConversionInfo (fromIMovie movie) p answers = Some (planned, rest)
        \<and> (\<forall>exitCode. Close exitCode \<notin> set evs)
        \<and> runEvents N containerDurationSeconds' currentFileIndex allFilesCount (planned, proc) evs =
            Inr (this', proc')"
  then have c: "collectConversionInfo (fromIMovie movie) p answers = Some (planned, rest)"
    by simp
  have "conversionResult planned = None"
    using collectConversionInfo_keeps_result [OF c] by (simp add: fromIMovie_def)
  moreover from a have "conversionResult (fst (this', proc')) = conversionResult (fst (planned, proc))"
    by (intro runEvents_keeps_result [of N containerDurationSeconds' currentFileIndex allFilesCount]) auto
  ultimately show "getConversionResult this' = Inl (Error ''AssertError: conversion did not finish yet'')"
    by (simp add: getConversionResult_def)
qed

text \<open>
  The example movie: \<open>convert\<close> and \<open>getConversionResult\<close> before planning throw;
  after planning, a progress chunk and a chunk of standard error leave the movie without
  result.
\<close>

theorem out_of_sequence_calls_throw_witness:
  "convert fixedPointNumbers (join_str ''/'') (fromIMovie EXAMPLE_CONFIG_movie) ''./converted''
       ''/usr/local/bin/ffmpeg'' =
     Inl (Error ''AssertError: must call collectConversionInfo() before convert()'')
   \<and> getConversionResult (fromIMovie EXAMPLE_CONFIG_movie :: int Movie) =
       Inl (Error ''AssertError: conversion did not finish yet'')
   \<and> collectConversionInfo (fromIMovie EXAMPLE_CONFIG_movie) scenarioProbe [''1'', ''2''] =
       Some (scenarioMovie, [])
   \<and> runEvents fixedPointNumbers 816000000000 1 1 (scenarioMovie, scenarioProcess)
       [StdoutData ''frame=100\<newline>out_time_us=4080000000\<newline>speed=1.5x\<newline>progress=continue\<newline>'',
        StderrData ''deprecated pixel format''] =
       Inr (scenarioMovie,
            scenarioProcess\<lparr>roundedProgressPercentage := ''50.00'',
              consoleLines := [''[1 / 1] The Matrix (1999) [50.00% at 1.5x]''],
              stderrText := ''deprecated pixel format''\<rparr>)
   \<and> getConversionResult scenarioMovie =
       Inl (Error ''AssertError: conversion did not finish yet'')"
proof -
  let ?fresh = "fromIMovie EXAMPLE_CONFIG_movie :: int Movie"
  let ?evs = "[StdoutData ''frame=100\<newline>out_time_us=4080000000\<newline>speed=1.5x\<newline>progress=continue\<newline>'',
        StderrData ''deprecated pixel format'']"
  let ?proc = "scenarioProcess\<lparr>roundedProgressPercentage := ''50.00'',
              consoleLines := [''[1 / 1] The Matrix (1999) [50.00% at 1.5x]''],
              stderrText := ''deprecated pixel format''\<rparr>"
  have f: "conversionInfo ?fresh = None" "conversionResult ?fresh = None"
    by (simp_all add: fromIMovie_def)
  have c: "collectConversionInfo (fromIMovie EXAMPLE_CONFIG_movie) scenarioProbe [''1'', ''2''] =
       Some (scenarioMovie, [])"
    using scenario_collect by (simp add: scenarioMovie_def)
  have r: "runEvents fixedPointNumbers 816000000000 1 1 (scenarioMovie, scenarioProcess) ?evs =
       Inr (scenarioMovie, ?proc)"
    by (simp add: handleEvent_def half_way_chunk scenario_process_fields)
  have n: "\<forall>exitCode. Close exitCode \<notin> set ?evs" by simp
  from out_of_sequence_calls_throw [of ?fresh fixedPointNumbers "join_str ''/''"
      "''./converted''" "''/usr/local/bin/ffmpeg''" EXAMPLE_CONFIG_movie scenarioProbe
      "[''1'', ''2'']" scenarioMovie "[]" ?evs 816000000000 1 1 scenarioProcess scenarioMovie ?proc]
    f c r n
  show ?thesis by simp
qed

section \<open>The progress monitor\<close>

lemma onStdoutData_step:
  assumes "regexMatch ''out_time_us='' data = Some outTime"
    and "regexMatch ''speed='' data = Some speed"
  shows "onStdoutData N this dur idx cnt proc data =
     Inr (if outTime = ''N/A'' \<or> speed = ''N/A'' then proc
          else if numToFixed N (numTimes N (numDivide N (numDivide N (numOfString N outTime)
                    (numOfInt N 1000000)) dur) (numOfInt N 100)) 2
                  \<noteq> roundedProgressPercentage proc
          then proc\<lparr>roundedProgressPercentage :=
                   numToFixed N (numTimes N (numDivide N (numDivide N (numOfString N outTime)
                     (numOfInt N 1000000)) dur) (numOfInt N 100)) 2,
                 consoleLines := consoleLines proc @
                   [logProgress this idx cnt
                      (numToFixed N (numTimes N (numDivide N (numDivide N (numOfString N outTime)
                         (numOfInt N 1000000)) dur) (numOfInt N 100)) 2) speed]\<rparr>
          else proc)"
  using assms by (simp add: onStdoutData_def getRoundedProgressPercentage_def Let_def)

lemma progress_run:
  assumes "list_all2 (\<lambda>data (outTime, speed).
              regexMatch ''out_time_us='' data = Some outTime \<and>
              regexMatch ''speed='' data = Some speed) chunks parsed"
    and pct: "percentage = (\<lambda>outTime. numToFixed N (numTimes N (numDivide N (numDivide N
                (numOfString N outTime) (numOfInt N 1000000)) dur) (numOfInt N 100)) 2)"
  shows "\<exists>proc'. runEvents N dur idx cnt (this, proc) (map StdoutData chunks) = Inr (this, proc')
      \<and> consoleLines proc' = consoleLines proc @
           map (\<lambda>(p, speed). logProgress this idx cnt p speed)
             (specProgressLines percentage (roundedProgressPercentage proc) parsed)
      \<and> roundedProgressPercentage proc' =
           last (roundedProgressPercentage proc #
                 map fst (specProgressLines percentage (roundedProgressPercentage proc) parsed))"
  using assms(1)
proof (induction chunks parsed arbitrary: proc rule: list_all2_induct)
  case Nil
  then show ?case by simp
next
  case (Cons data chunks v parsed)
  obtain outTime speed where v: "v = (outTime, speed)" by (cases v)
  with Cons.hyps(1) have m: "regexMatch ''out_time_us='' data = Some outTime"
    "regexMatch ''speed='' data = Some speed" by simp_all
  have step: "onStdoutData N this dur idx cnt proc data =
     Inr (if outTime = ''N/A'' \<or> speed = ''N/A'' then proc
          else if percentage outTime \<noteq> roundedProgressPercentage proc
          then proc\<lparr>roundedProgressPercentage := percentage outTime,
                 consoleLines := consoleLines proc @
                   [logProgress this idx cnt (percentage outTime) speed]\<rparr>
          else proc)"
    unfolding pct by (rule onStdoutData_step [OF m])
  consider (na) "outTime = ''N/A'' \<or> speed = ''N/A''"
    | (new) "\<not> (outTime = ''N/A'' \<or> speed = ''N/A'')"
        "percentage outTime \<noteq> roundedProgressPercentage proc"
    | (same) "\<not> (outTime = ''N/A'' \<or> speed = ''N/A'')"
        "percentage outTime = roundedProgressPercentage proc"
    by blast
  then show ?case
  proof cases
    case na
    then have "onStdoutData N this dur idx cnt proc data = Inr proc" using step by simp
    with Cons.IH [of proc] na show ?thesis
      by (auto simp: handleEvent_def v)
  next
    case same
    then have "onStdoutData N this dur idx cnt proc data = Inr proc" using step by simp
    with Cons.IH [of proc] same show ?thesis
      by (auto simp: handleEvent_def v)
  next
    case new
    let ?proc1 = "proc\<lparr>roundedProgressPercentage := percentage outTime,
        consoleLines := consoleLines proc @ [logProgress this idx cnt (percentage outTime) speed]\<rparr>"
    from new have s: "onStdoutData N this dur idx cnt proc data = Inr ?proc1"
      using step by simp
    from Cons.IH [of ?proc1] obtain proc' where
      r: "runEvents N dur idx cnt (this, ?proc1) (map StdoutData chunks) = Inr (this, proc')"
      and c: "consoleLines proc' = consoleLines ?proc1 @
           map (\<lambda>(p, speed). logProgress this idx cnt p speed)
             (specProgressLines percentage (roundedProgressPercentage ?proc1) parsed)"
      and p: "roundedProgressPercentage proc' =
           last (roundedProgressPercentage ?proc1 #
                 map fst (specProgressLines percentage (roundedProgressPercentage ?proc1) parsed))"
      by blast
    have "runEvents N dur idx cnt (this, proc) (map StdoutData (data # chunks)) = Inr (this, proc')"
      using s r by (simp add: handleEvent_def)
    moreover have "consoleLines proc' = consoleLines proc @
           map (\<lambda>(p, speed). logProgress this idx cnt p speed)
             (specProgressLines percentage (roundedProgressPercentage proc) (v # parsed))"
      using c new by (simp add: v)
    moreover have "roundedProgressPercentage proc' =
           last (roundedProgressPercentage proc #
                 map fst (specProgressLines percentage (roundedProgressPercentage proc) (v # parsed)))"
      using p new by (simp add: v)
    ultimately show ?thesis by blast
  qed
qed

text \<open>
  C7, as the code has it: for chunks that each hold both an \<open>out_time_us\<close> value and a
  \<open>speed\<close> value, the monitor runs through without error, and the lines it writes are
  those of \<open>specProgressLines\<close>: none for a chunk with "N/A" for either value, and one for
  any other chunk exactly when its percentage, (out_time_us / 1000000) / duration times 100
  as \<open>toFixed(2)\<close> prints it, differs from the percentage logged last; the variable
  \<open>roundedProgressPercentage\<close> holds that percentage. \<open>convert\<close> starts with no line and
  with the percentage 0.00, that being what \<open>toFixed(2)\<close> prints for 0 times 100. Of two
  chunks in a row with the same percentage the second writes nothing, so both write one
  line at most.
\<close>

theorem progress_lines_follow_percentage_changes:
  assumes "list_all2 (\<lambda>data (outTime, speed).
              regexMatch ''out_time_us='' data = Some outTime \<and>
              regexMatch ''speed='' data = Some speed) chunks parsed"
  shows
    "(let percentage = (\<lambda>outTime. numToFixed N (numTimes N (numDivide N (numDivide N
                (numOfString N outTime) (numOfInt N 1000000)) dur) (numOfInt N 100)) 2);
          lines = specProgressLines percentage (roundedProgressPercentage proc) parsed
      in (\<exists>proc'. runEvents N dur idx cnt (this, proc) (map StdoutData chunks) = Inr (this, proc')
            \<and> consoleLines proc' = consoleLines proc @
                 map (\<lambda>(p, speed). logProgress this idx cnt p speed) lines
            \<and> roundedProgressPercentage proc' =
                 last (roundedProgressPercentage proc # map fst lines))
         \<and> (\<forall>proc0. numToFixed N (numTimes N (numOfInt N 0) (numOfInt N 100)) 2 = ''0.00'' \<and>
               convert N join this outputFolderPath ffmpegBinaryPath = Inr proc0 \<longrightarrow>
               roundedProgressPercentage proc0 = ''0.00'' \<and> consoleLines proc0 = [])
         \<and> (\<forall>first second o1 s1 o2 s2.
               regexMatch ''out_time_us='' first = Some o1 \<and> regexMatch ''speed='' first = Some s1 \<and>
               regexMatch ''out_time_us='' second = Some o2 \<and> regexMatch ''speed='' second = Some s2 \<and>
               o1 \<noteq> ''N/A'' \<and> s1 \<noteq> ''N/A'' \<and> o2 \<noteq> ''N/A'' \<and> s2 \<noteq> ''N/A'' \<and>
               percentage o1 = percentage o2 \<longrightarrow>
               (\<exists>proc1. onStdoutData N this dur idx cnt proc first = Inr proc1 \<and>
                  onStdoutData N this dur idx cnt proc1 second = Inr proc1 \<and>
                  length (consoleLines proc1) \<le> length (consoleLines proc) + 1)))"
proof -
  define percentage where "percentage = (\<lambda>outTime. numToFixed N (numTimes N (numDivide N
      (numDivide N (numOfString N outTime) (numOfInt N 1000000)) dur) (numOfInt N 100)) 2)"
  have run: "\<exists>proc'. runEvents N dur idx cnt (this, proc) (map StdoutData chunks) = Inr (this, proc')
      \<and> consoleLines proc' = consoleLines proc @
           map (\<lambda>(p, speed). logProgress this idx cnt p speed)
             (specProgressLines percentage (roundedProgressPercentage proc) parsed)
      \<and> roundedProgressPercentage proc' =
           last (roundedProgressPercentage proc #
                 map fst (specProgressLines percentage (roundedProgressPercentage proc) parsed))"
    by (rule progress_run [OF assms percentage_def])
  have start: "\<forall>proc0. numToFixed N (numTimes N (numOfInt N 0) (numOfInt N 100)) 2 = ''0.00'' \<and>
      convert N join this outputFolderPath ffmpegBinaryPath = Inr proc0 \<longrightarrow>
      roundedProgressPercentage proc0 = ''0.00'' \<and> consoleLines proc0 = []"
    by (auto simp: convert_def getRoundedProgressPercentage_def Let_def split: option.splits)
  have twice: "\<exists>proc1. onStdoutData N this dur idx cnt proc first = Inr proc1 \<and>
        onStdoutData N this dur idx cnt proc1 second = Inr proc1 \<and>
        length (consoleLines proc1) \<le> length (consoleLines proc) + 1"
    if m: "regexMatch ''out_time_us='' first = Some o1" "regexMatch ''speed='' first = Some s1"
      "regexMatch ''out_time_us='' second = Some o2" "regexMatch ''speed='' second = Some s2"
      and n: "o1 \<noteq> ''N/A''" "s1 \<noteq> ''N/A''" "o2 \<noteq> ''N/A''" "s2 \<noteq> ''N/A''"
      and e: "percentage o1 = percentage o2"
    for first second o1 s1 o2 s2
  proof -
    have s1: "\<And>p. onStdoutData N this dur idx cnt p first =
       Inr (if percentage o1 \<noteq> roundedProgressPercentage p
            then p\<lparr>roundedProgressPercentage := percentage o1,
                   consoleLines := consoleLines p @ [logProgress this idx cnt (percentage o1) s1]\<rparr>
            else p)"
      unfolding percentage_def by (simp add: onStdoutData_step [OF m(1,2)] n)
    have s2: "\<And>p. onStdoutData N this dur idx cnt p second =
       Inr (if percentage o2 \<noteq> roundedProgressPercentage p
            then p\<lparr>roundedProgressPercentage := percentage o2,
                   consoleLines := consoleLines p @ [logProgress this idx cnt (percentage o2) s2]\<rparr>
            else p)"
      unfolding percentage_def by (simp add: onStdoutData_step [OF m(3,4)] n)
    show ?thesis
    proof (cases "percentage o1 \<noteq> roundedProgressPercentage proc")
      case True
      let ?p1 = "proc\<lparr>roundedProgressPercentage := percentage o1,
                   consoleLines := consoleLines proc @ [logProgress this idx cnt (percentage o1) s1]\<rparr>"
      have "onStdoutData N this dur idx cnt proc first = Inr ?p1" using True s1 by simp
      moreover have "onStdoutData N this dur idx cnt ?p1 second = Inr ?p1"
        using e by (simp add: s2)
      ultimately show ?thesis by (intro exI [of _ ?p1]) simp
    next
      case False
      then have "onStdoutData N this dur idx cnt proc first = Inr proc" using s1 by simp
      moreover have "onStdoutData N this dur idx cnt proc second = Inr proc"
        using False e by (simp add: s2)
      ultimately show ?thesis by (intro exI [of _ proc]) simp
    qed
  qed
  show ?thesis
    unfolding Let_def percentage_def [symmetric] using run start twice by blast
qed

lemma example_percentages:
  "numToFixed fixedPointNumbers (numTimes fixedPointNumbers (numDivide fixedPointNumbers
     (numDivide fixedPointNumbers (numOfString fixedPointNumbers ''4080000000'')
        (numOfInt fixedPointNumbers 1000000)) 816000000000) (numOfInt fixedPointNumbers 100)) 2 = ''50.00''"
  "numToFixed fixedPointNumbers (numTimes fixedPointNumbers (numDivide fixedPointNumbers
     (numDivide fixedPointNumbers (numOfString fixedPointNumbers ''4080200000'')
        (numOfInt fixedPointNumbers 1000000)) 816000000000) (numOfInt fixedPointNumbers 100)) 2 = ''50.00''"
  "numToFixed fixedPointNumbers (numTimes fixedPointNumbers (numDivide fixedPointNumbers
     (numDivide fixedPointNumbers (numOfString fixedPointNumbers ''8160000000'')
        (numOfInt fixedPointNumbers 1000000)) 816000000000) (numOfInt fixedPointNumbers 100)) 2 = ''100.00''"
  by (simp_all add: fixedPointNumbers_def fixedPointToFixed_def show_nat.simps digit_char_def
      numeral_2_eq_2 parseInt10_def is_white_space_def is_digit_def digit_val_def Let_def)

lemma example_chunks:
  "regexMatch ''out_time_us='' ''out_time_us=4080000000\<newline>speed=1.5x\<newline>'' = Some ''4080000000''"
  "regexMatch ''speed='' ''out_time_us=4080000000\<newline>speed=1.5x\<newline>'' = Some ''1.5x''"
  "regexMatch ''out_time_us='' ''out_time_us=4080200000\<newline>speed=1.6x\<newline>'' = Some ''4080200000''"
  "regexMatch ''speed='' ''out_time_us=4080200000\<newline>speed=1.6x\<newline>'' = Some ''1.6x''"
  "regexMatch ''out_time_us='' ''out_time_us=N/A\<newline>speed=N/A\<newline>'' = Some ''N/A''"
  "regexMatch ''speed='' ''out_time_us=N/A\<newline>speed=N/A\<newline>'' = Some ''N/A''"
  "regexMatch ''out_time_us='' ''out_time_us=8160000000\<newline>speed=1.4x\<newline>'' = Some ''8160000000''"
  "regexMatch ''speed='' ''out_time_us=8160000000\<newline>speed=1.4x\<newline>'' = Some ''1.4x''"
  by (simp_all add: regexMatchAt_def isLineTerminator_def)

text \<open>
  On the scenario, with the percentage 0.00 at the start: chunks at 50.00, 50.00, "N/A" and
  100.00 percent write the lines of 50.00 and of 100.00, and the first two write one line.
\<close>

theorem progress_lines_follow_percentage_changes_witness:
  "list_all2 (\<lambda>data (outTime, speed).
       regexMatch ''out_time_us='' data = Some outTime \<and> regexMatch ''speed='' data = Some speed)
     [''out_time_us=4080000000\<newline>speed=1.5x\<newline>'',
      ''out_time_us=4080200000\<newline>speed=1.6x\<newline>'',
      ''out_time_us=N/A\<newline>speed=N/A\<newline>'',
      ''out_time_us=8160000000\<newline>speed=1.4x\<newline>'']
     [(''4080000000'', ''1.5x''), (''4080200000'', ''1.6x''), (''N/A'', ''N/A''),
      (''8160000000'', ''1.4x'')]
   \<and> (\<exists>proc'. runEvents fixedPointNumbers 816000000000 1 1 (scenarioMovie, scenarioProcess)
         (map StdoutData
           [''out_time_us=4080000000\<newline>speed=1.5x\<newline>'',
            ''out_time_us=4080200000\<newline>speed=1.6x\<newline>'',
            ''out_time_us=N/A\<newline>speed=N/A\<newline>'',
            ''out_time_us=8160000000\<newline>speed=1.4x\<newline>'']) = Inr (scenarioMovie, proc')
       \<and> consoleLines proc' =
           [''[1 / 1] The Matrix (1999) [50.00% at 1.5x]'',
            ''[1 / 1] The Matrix (1999) [100.00% at 1.4x]'']
       \<and> roundedProgressPercentage proc' = ''100.00'')
   \<and> (\<exists>proc1. onStdoutData fixedPointNumbers scenarioMovie 816000000000 1 1 scenarioProcess
           ''out_time_us=4080000000\<newline>speed=1.5x\<newline>'' = Inr proc1
       \<and> onStdoutData fixedPointNumbers scenarioMovie 816000000000 1 1 proc1
           ''out_time_us=4080200000\<newline>speed=1.6x\<newline>'' = Inr proc1
       \<and> length (consoleLines proc1) \<le> 1)
   \<and> convert fixedPointNumbers (join_str ''/'') scenarioMovie ''./converted''
       ''/usr/local/bin/ffmpeg'' = Inr scenarioProcess
   \<and> roundedProgressPercentage scenarioProcess = ''0.00''"
proof -
  let ?chunks = "[''out_time_us=4080000000\<newline>speed=1.5x\<newline>'',
      ''out_time_us=4080200000\<newline>speed=1.6x\<newline>'',
      ''out_time_us=N/A\<newline>speed=N/A\<newline>'',
      ''out_time_us=8160000000\<newline>speed=1.4x\<newline>'']"
  let ?parsed = "[(''4080000000'', ''1.5x''), (''4080200000'', ''1.6x''), (''N/A'', ''N/A''),
      (''8160000000'', ''1.4x'')]"
  have la: "list_all2 (\<lambda>data (outTime, speed).
       regexMatch ''out_time_us='' data = Some outTime \<and> regexMatch ''speed='' data = Some speed)
     ?chunks ?parsed"
    by (simp add: example_chunks del: regexMatch.simps)
  have lines: "specProgressLines (\<lambda>outTime. numToFixed fixedPointNumbers (numTimes fixedPointNumbers
        (numDivide fixedPointNumbers (numDivide fixedPointNumbers
          (numOfString fixedPointNumbers outTime) (numOfInt fixedPointNumbers 1000000)) 816000000000)
        (numOfInt fixedPointNumbers 100)) 2) ''0.00'' ?parsed =
      [(''50.00'', ''1.5x''), (''100.00'', ''1.4x'')]"
    by (simp add: example_percentages)
  have log: "logProgress scenarioMovie 1 1 ''50.00'' ''1.5x'' = ''[1 / 1] The Matrix (1999) [50.00% at 1.5x]''"
    "logProgress scenarioMovie 1 1 ''100.00'' ''1.4x'' = ''[1 / 1] The Matrix (1999) [100.00% at 1.4x]''"
    by (simp_all add: logProgress_def example_name show_int_small)
  note t = progress_lines_follow_percentage_changes [OF la,
      of fixedPointNumbers 816000000000 scenarioProcess 1 1 scenarioMovie "join_str ''/''"
        "''./converted''" "''/usr/local/bin/ffmpeg''", unfolded Let_def]
  from t have z: "roundedProgressPercentage scenarioProcess = ''0.00''"
    using scenario_convert initial_percentage
    by (simp add: getRoundedProgressPercentage_def del: runEvents.simps regexMatch.simps)
  from t
  have "\<exists>proc'. runEvents fixedPointNumbers 816000000000 1 1 (scenarioMovie, scenarioProcess)
         (map StdoutData ?chunks) = Inr (scenarioMovie, proc')
       \<and> consoleLines proc' =
           [''[1 / 1] The Matrix (1999) [50.00% at 1.5x]'',
            ''[1 / 1] The Matrix (1999) [100.00% at 1.4x]'']
       \<and> roundedProgressPercentage proc' = ''100.00''"
    unfolding Let_def scenario_process_fields lines by (simp add: log del: runEvents.simps)
  moreover from t
  have "\<exists>proc1. onStdoutData fixedPointNumbers scenarioMovie 816000000000 1 1 scenarioProcess
           ''out_time_us=4080000000\<newline>speed=1.5x\<newline>'' = Inr proc1
       \<and> onStdoutData fixedPointNumbers scenarioMovie 816000000000 1 1 proc1
           ''out_time_us=4080200000\<newline>speed=1.6x\<newline>'' = Inr proc1
       \<and> length (consoleLines proc1) \<le> 1"
    using example_chunks example_percentages
    by (simp add: scenario_process_fields del: regexMatch.simps runEvents.simps)
  ultimately show ?thesis
    using la z by (simp add: scenario_convert del: regexMatch.simps runEvents.simps)
qed

text \<open>
  C7 as it is written fails: the chunk that holds \<open>out_time_us=N/A\<close> and no \<open>speed\<close>
  line has the \<open>out_time_us\<close> value "N/A", and the handler throws on it.
\<close>

theorem not_available_without_speed_throws:
  "regexMatch ''out_time_us='' ''out_time_us=N/A\<newline>'' = Some ''N/A''
   \<and> onStdoutData fixedPointNumbers scenarioMovie 816000000000 1 1 scenarioProcess
       ''out_time_us=N/A\<newline>'' = Inl (TypeError ''Cannot read properties of null'')"
  by (simp add: onStdoutData_def regexMatchAt_def isLineTerminator_def)

end
